theory Spec2Isabelle
  imports Complex_Main
begin

section \<open>Study identity\<close>

text \<open>
  Python's \<open>sep.join(parts)\<close> on a list of strings.
\<close>

fun join :: "string \<Rightarrow> string list \<Rightarrow> string" where
  "join sep [] = []"
| "join sep [x] = x"
| "join sep (x # y # ys) = x @ sep @ join sep (y # ys)"

text \<open>
  The two strings \<open>XGBOptuna.optimize\<close> hands to \<open>optuna.create_study\<close>:
  \<open>study_name="XGBoostOptuna" + "|".join(self.modality)\<close> and
  \<open>storage="sqlite:////" + db_path + "/xgb_" + "_".join(self.modality) + "_" +
  self.classification_type + ".db"\<close>. The path \<open>db_path\<close> is what the external
  \<open>get_db_path()\<close> returns.
\<close>

definition study_name :: "string list \<Rightarrow> string" where
  "study_name modality = ''XGBoostOptuna'' @ join ''|'' modality"

definition storage :: "string \<Rightarrow> string list \<Rightarrow> string \<Rightarrow> string" where
  "storage db_path modality classification_type =
     ''sqlite:////'' @ db_path @ ''/xgb_'' @ join ''_'' modality @ ''_''
       @ classification_type @ ''.db''"

definition study_identity :: "string \<Rightarrow> string list \<Rightarrow> string \<Rightarrow> string \<times> string" where
  "study_identity db_path modality classification_type =
     (study_name modality, storage db_path modality classification_type)"

section \<open>Values, errors and external collaborators\<close>

text \<open>
  Python objects are referred to by address. Hyperparameter values are dynamically typed:
  an integer, a float (modelled as a real number), a string, a reference to an object, or
  the pruning callback made for a metric name.
  Keyword arguments and dictionaries are association lists in insertion order.
\<close>

type_synonym addr = nat

datatype pyval = PInt int | PFloat real | PStr string | PRef addr | PruningCallback string

type_synonym kwargs = "(string \<times> pyval) list"

type_synonym table = "real list list"

type_synonym column = "int list"

text \<open>
  The exceptions that can leave the functions modelled here. \<open>KeyError\<close> is what the
  label table raises for a missing column and what a dictionary raises for a missing key;
  \<open>NoCompletedTrials\<close> is the failure of the best-trial selection on a study without a
  completed trial.
\<close>

datatype error =
    KeyError string
  | ValueError string
  | TypeError string
  | AttributeError string
  | NotFittedError
  | TrialPruned
  | NoCompletedTrials
  | TrainingError string

fun dict_set :: "string \<Rightarrow> pyval \<Rightarrow> kwargs \<Rightarrow> kwargs" where
  "dict_set k v [] = [(k, v)]"
| "dict_set k v ((k', v') # d) = (if k' = k then (k, v) # d else (k', v') # dict_set k v d)"

fun dict_update :: "kwargs \<Rightarrow> kwargs \<Rightarrow> kwargs" where
  "dict_update d [] = d"
| "dict_update d ((k, v) # ps) = dict_update (dict_set k v d) ps"

datatype distribution = IntDistribution int int | FloatDistribution real real

datatype trial_state = RUNNING | COMPLETE real | PRUNED | FAIL

record trial =
  number :: nat
  params :: kwargs
  state :: trial_state

text \<open>
  What the source calls but does not define is a parameter of the model: the database
  path, the dataset's feature and label extraction, the gradient-boosted-tree training
  and prediction, the fold splitter of the cross-validation and the sampler of the study.
  \<open>'d\<close> is the type of datasets, \<open>'b\<close> the type of a trained booster.
\<close>

record ('d, 'b) env =
  get_db_path :: string
  get_concat_dataset :: "'d \<Rightarrow> string list \<Rightarrow> table \<times> (string \<times> column) list"
  get_features :: "'d \<Rightarrow> string list \<Rightarrow> table"
  xgb_fit :: "kwargs \<Rightarrow> table \<Rightarrow> column \<Rightarrow> error + 'b"
  xgb_predict :: "'b \<Rightarrow> table \<Rightarrow> column"
  kfold :: "nat \<Rightarrow> 'd \<Rightarrow> ('d \<times> 'd) list"
  TPESampler :: "int \<Rightarrow> trial list \<Rightarrow> nat \<Rightarrow> string \<Rightarrow> distribution \<Rightarrow> pyval"

section \<open>Objects and the store\<close>

record 'b XGBClassifier =
  xgb_params :: kwargs
  booster :: "'b option"

record XGBPipeline =
  classifier :: pyval
  modality :: "string list"
  n_estimators :: pyval
  max_depth :: pyval
  reg_alpha :: pyval
  reg_lambda :: pyval
  min_child_weight :: pyval
  gamma :: pyval
  learning_rate :: pyval
  colsample_bytree :: pyval
  classification_type :: string
  epoch_length :: int
  algorithm :: string
  classification :: "column option"

text \<open>
  The store holds the pipeline objects, the classifier objects and the persisted studies
  (the trial log of each study, under its storage key and study name). Objects are
  allocated at \<open>next_id\<close>, which only grows.
\<close>

record 'b world =
  pipelines :: "addr \<Rightarrow> XGBPipeline option"
  classifiers :: "addr \<Rightarrow> 'b XGBClassifier option"
  next_id :: addr
  db :: "string \<times> string \<Rightarrow> trial list option"

text \<open>
  A computation takes the store and returns a value or an exception, and the store as it
  is then: an exception does not undo what was written before it.
\<close>

type_synonym ('b, 'a) m = "'b world \<Rightarrow> (error + 'a) \<times> 'b world"

definition ret :: "'a \<Rightarrow> ('b, 'a) m" where
  "ret x = (\<lambda>w. (Inr x, w))"

definition raise :: "error \<Rightarrow> ('b, 'a) m" where
  "raise e = (\<lambda>w. (Inl e, w))"

definition and_then :: "('b, 'a) m \<Rightarrow> ('a \<Rightarrow> ('b, 'c) m) \<Rightarrow> ('b, 'c) m" where
  "and_then f g = (\<lambda>w. case f w of (Inl e, w') \<Rightarrow> (Inl e, w') | (Inr x, w') \<Rightarrow> g x w')"

subsection \<open>The classifier (external: xgboost, scikit-learn)\<close>

text \<open>
  Modelled from the spec: the gradient-boosted-tree classifier, which is xgboost's and not
  in the source, is an opaque fit and predict capability (sections 1 and 4.1): a handle
  holds its parameters and, once fitted, the trained state; cloning duplicates the
  parameters and resets the trained state (section 9); parameters are stored as given.
\<close>

definition alloc_classifier :: "'b XGBClassifier \<Rightarrow> ('b, addr) m" where
  "alloc_classifier c = (\<lambda>w. (Inr (next_id w),
     w\<lparr>classifiers := (classifiers w)(next_id w \<mapsto> c), next_id := Suc (next_id w)\<rparr>))"

text \<open>\<open>XGBClassifier(**kwargs)\<close>: a new, untrained classifier holding its parameters.\<close>

definition XGBClassifier_init :: "kwargs \<Rightarrow> ('b, addr) m" where
  "XGBClassifier_init kw = alloc_classifier \<lparr>xgb_params = kw, booster = None\<rparr>"

text \<open>
  \<open>sklearn.base.clone(estimator)\<close>: a new estimator with the same parameters that has
  not been fitted; a value that is no estimator is a \<open>TypeError\<close>.
\<close>

definition sklearn_clone :: "pyval \<Rightarrow> ('b, addr) m" where
  "sklearn_clone v = (\<lambda>w. case v of
       PRef a \<Rightarrow> (case classifiers w a of
           Some c \<Rightarrow> alloc_classifier (c\<lparr>booster := None\<rparr>) w
         | None \<Rightarrow> (Inl (TypeError ''clone''), w))
     | _ \<Rightarrow> (Inl (TypeError ''clone''), w))"

text \<open>\<open>classifier.set_params(**params)\<close>: updates the parameters in place, returns the classifier.\<close>

definition XGBClassifier_set_params :: "addr \<Rightarrow> kwargs \<Rightarrow> ('b, addr) m" where
  "XGBClassifier_set_params a ps = (\<lambda>w. case classifiers w a of
       None \<Rightarrow> (Inl (AttributeError ''set_params''), w)
     | Some c \<Rightarrow> (Inr a,
         w\<lparr>classifiers := (classifiers w)(a \<mapsto> c\<lparr>xgb_params := dict_update (xgb_params c) ps\<rparr>)\<rparr>))"

text \<open>
  \<open>classifier.fit(X, y)\<close>: trains in place with the classifier's parameters and returns
  the classifier; the training itself is the external \<open>xgb_fit\<close>, which may fail.
\<close>

definition fit :: "('d, 'b) env \<Rightarrow> addr \<Rightarrow> table \<Rightarrow> column \<Rightarrow> ('b, addr) m" where
  "fit env a X y = (\<lambda>w. case classifiers w a of
       None \<Rightarrow> (Inl (AttributeError ''fit''), w)
     | Some c \<Rightarrow> (case xgb_fit env (xgb_params c) X y of
           Inl e \<Rightarrow> (Inl e, w)
         | Inr b \<Rightarrow> (Inr a, w\<lparr>classifiers := (classifiers w)(a \<mapsto> c\<lparr>booster := Some b\<rparr>)\<rparr>)))"

text \<open>\<open>classifier.predict(X)\<close>: fails on a classifier that has not been fitted.\<close>

definition predict :: "('d, 'b) env \<Rightarrow> pyval \<Rightarrow> table \<Rightarrow> ('b, column) m" where
  "predict env v X = (\<lambda>w. case v of
       PRef a \<Rightarrow> (case classifiers w a of
           None \<Rightarrow> (Inl (AttributeError ''predict''), w)
         | Some c \<Rightarrow> (case booster c of
               None \<Rightarrow> (Inl NotFittedError, w)
             | Some b \<Rightarrow> (Inr (xgb_predict env b X), w)))
     | _ \<Rightarrow> (Inl (AttributeError ''predict''), w))"

section \<open>XGBPipeline\<close>

definition alloc_pipeline :: "XGBPipeline \<Rightarrow> ('b, addr) m" where
  "alloc_pipeline pl = (\<lambda>w. (Inr (next_id w),
     w\<lparr>pipelines := (pipelines w)(next_id w \<mapsto> pl), next_id := Suc (next_id w)\<rparr>))"

text \<open>
  \<open>XGBPipeline.__init__\<close> (lines 18 to 45): every argument is stored as it is given;
  \<open>epoch_length\<close> and \<open>algorithm\<close> are constants.
\<close>

definition XGBPipeline_init ::
  "string list \<Rightarrow> pyval \<Rightarrow> pyval \<Rightarrow> pyval \<Rightarrow> pyval \<Rightarrow> pyval \<Rightarrow> pyval \<Rightarrow> pyval \<Rightarrow> pyval
     \<Rightarrow> pyval \<Rightarrow> string \<Rightarrow> ('b, addr) m" where
  "XGBPipeline_init modality' n_estimators' max_depth' reg_alpha' reg_lambda'
       min_child_weight' gamma' learning_rate' colsample_bytree' classifier'
       classification_type' =
     alloc_pipeline
       \<lparr>classifier = classifier',
        modality = modality',
        n_estimators = n_estimators',
        max_depth = max_depth',
        reg_alpha = reg_alpha',
        reg_lambda = reg_lambda',
        min_child_weight = min_child_weight',
        gamma = gamma',
        learning_rate = learning_rate',
        colsample_bytree = colsample_bytree',
        classification_type = classification_type',
        epoch_length = 30,
        algorithm = ''xgb'',
        classification = None\<rparr>"

text \<open>
  The default of the \<open>classifier\<close> argument, \<open>cf(XGBClassifier(n_jobs=-1))\<close>: a
  classifier of its own for each pipeline that is built without one.
\<close>

definition default_classifier :: "('b, addr) m" where
  "default_classifier = XGBClassifier_init [(''n_jobs'', PInt (- 1))]"

text \<open>
  Modelled from the spec: \<open>Pipeline.clone()\<close>, which is tpcp's and not in the source.
  It returns a new pipeline with identical hyperparameters and a fresh, untrained
  classifier handle (section 4.1); the new pipeline is built by the constructor.
\<close>

definition clone :: "addr \<Rightarrow> ('b, addr) m" where
  "clone p = (\<lambda>w. case pipelines w p of
       None \<Rightarrow> (Inl (AttributeError ''clone''), w)
     | Some pl \<Rightarrow>
         and_then (sklearn_clone (classifier pl)) (\<lambda>c.
           XGBPipeline_init (modality pl) (n_estimators pl) (max_depth pl) (reg_alpha pl)
             (reg_lambda pl) (min_child_weight pl) (gamma pl) (learning_rate pl)
             (colsample_bytree pl) (PRef c) (classification_type pl)) w)"

text \<open>
  \<open>pipeline.set_params(**params)\<close>, which is tpcp's and not in the source: each named
  attribute is set in turn, in place; a name that is no parameter raises \<open>ValueError\<close>,
  after the names before it have been set. The source passes the eight hyperparameters
  and \<open>classifier\<close>, and these nine names are the ones the model accepts: \<open>modality\<close>
  and \<open>classification_type\<close> are given to the constructor only.
\<close>

definition set_attr :: "string \<Rightarrow> pyval \<Rightarrow> XGBPipeline \<Rightarrow> XGBPipeline option" where
  "set_attr name v pl =
     (if name = ''classifier'' then Some (pl\<lparr>classifier := v\<rparr>)
      else if name = ''n_estimators'' then Some (pl\<lparr>n_estimators := v\<rparr>)
      else if name = ''max_depth'' then Some (pl\<lparr>max_depth := v\<rparr>)
      else if name = ''reg_alpha'' then Some (pl\<lparr>reg_alpha := v\<rparr>)
      else if name = ''reg_lambda'' then Some (pl\<lparr>reg_lambda := v\<rparr>)
      else if name = ''min_child_weight'' then Some (pl\<lparr>min_child_weight := v\<rparr>)
      else if name = ''gamma'' then Some (pl\<lparr>gamma := v\<rparr>)
      else if name = ''learning_rate'' then Some (pl\<lparr>learning_rate := v\<rparr>)
      else if name = ''colsample_bytree'' then Some (pl\<lparr>colsample_bytree := v\<rparr>)
      else None)"

fun set_attrs :: "kwargs \<Rightarrow> XGBPipeline \<Rightarrow> error option \<times> XGBPipeline" where
  "set_attrs [] pl = (None, pl)"
| "set_attrs ((name, v) # ps) pl =
     (case set_attr name v pl of
        None \<Rightarrow> (Some (ValueError name), pl)
      | Some pl' \<Rightarrow> set_attrs ps pl')"

definition set_params :: "addr \<Rightarrow> kwargs \<Rightarrow> ('b, addr) m" where
  "set_params p ps = (\<lambda>w. case pipelines w p of
       None \<Rightarrow> (Inl (AttributeError ''set_params''), w)
     | Some pl \<Rightarrow>
         (case set_attrs ps pl of
            (None, pl') \<Rightarrow> (Inr p, w\<lparr>pipelines := (pipelines w)(p \<mapsto> pl')\<rparr>)
          | (Some e, pl') \<Rightarrow> (Inl e, w\<lparr>pipelines := (pipelines w)(p \<mapsto> pl')\<rparr>)))"

text \<open>
  \<open>XGBPipeline._set_classifier_params\<close> (lines 67 to 78): the pipeline's eight
  hyperparameters are handed to the classifier as they are.
\<close>

definition set_classifier_params :: "XGBPipeline \<Rightarrow> addr \<Rightarrow> ('b, addr) m" where
  "set_classifier_params self classifier' =
     XGBClassifier_set_params classifier'
       [(''n_estimators'', n_estimators self),
        (''max_depth'', max_depth self),
        (''reg_alpha'', reg_alpha self),
        (''reg_lambda'', reg_lambda self),
        (''min_child_weight'', min_child_weight self),
        (''gamma'', gamma self),
        (''learning_rate'', learning_rate self),
        (''colsample_bytree'', colsample_bytree self)]"

text \<open>
  \<open>d[name]\<close> on a table or a dictionary: the entry, or \<open>KeyError\<close> when there is
  none of that name.
\<close>

definition getitem :: "(string \<times> 'a) list \<Rightarrow> string \<Rightarrow> ('b, 'a) m" where
  "getitem d name =
     (case map_of d name of
        None \<Rightarrow> raise (KeyError name)
      | Some y \<Rightarrow> ret y)"

definition set_classifier :: "addr \<Rightarrow> addr \<Rightarrow> ('b, addr) m" where
  "set_classifier self c = (\<lambda>w. case pipelines w self of
       None \<Rightarrow> (Inl (AttributeError ''classifier''), w)
     | Some pl \<Rightarrow> (Inr self, w\<lparr>pipelines := (pipelines w)(self \<mapsto> pl\<lparr>classifier := PRef c\<rparr>)\<rparr>))"

text \<open>
  \<open>XGBPipeline.self_optimize\<close> (lines 47 to 65). The whole dataset is concatenated, a
  clone of the pipeline's classifier gets the pipeline's hyperparameters and is trained
  on the column \<open>sleep\<close> in the binary mode and on the column named by the
  classification type otherwise; the trained clone becomes the pipeline's classifier.
  The keyword arguments are accepted and not used.
\<close>

definition self_optimize :: "('d, 'b) env \<Rightarrow> addr \<Rightarrow> 'd \<Rightarrow> kwargs \<Rightarrow> ('b, addr) m" where
  "self_optimize env self dataset kw = (\<lambda>w. case pipelines w self of
       None \<Rightarrow> (Inl (AttributeError ''self_optimize''), w)
     | Some pl \<Rightarrow>
         (case get_concat_dataset env dataset (modality pl) of (features, ground_truth) \<Rightarrow>
            and_then (sklearn_clone (classifier pl)) (\<lambda>c0.
            and_then (set_classifier_params pl c0) (\<lambda>c.
              if classification_type pl = ''binary'' then
                and_then (getitem ground_truth ''sleep'') (\<lambda>y.
                and_then (fit env c features y) (\<lambda>c'. set_classifier self c'))
              else
                and_then (getitem ground_truth (classification_type pl)) (\<lambda>y.
                and_then (fit env c features y) (\<lambda>c'. set_classifier self c')))) w))"

text \<open>
  \<open>XGBPipeline.run\<close> (lines 80 to 89): the features of one datapoint are classified
  by the pipeline's classifier and the labels stored in \<open>classification_\<close>.
\<close>

definition run :: "('d, 'b) env \<Rightarrow> addr \<Rightarrow> 'd \<Rightarrow> ('b, addr) m" where
  "run env self datapoint = (\<lambda>w. case pipelines w self of
       None \<Rightarrow> (Inl (AttributeError ''run''), w)
     | Some pl \<Rightarrow>
         and_then (predict env (classifier pl) (get_features env datapoint (modality pl))) (\<lambda>ys w'.
           (Inr self, w'\<lparr>pipelines := (pipelines w')(self \<mapsto> pl\<lparr>classification := Some ys\<rparr>)\<rparr>)) w)"

text \<open>
  Modelled from the spec: \<open>Optimize(pipeline).optimize(dataset, **optimize_params)\<close>
  and its result \<open>optimized_pipeline_\<close>, which are tpcp's and not in the source. The
  wrapped pipeline is cloned and the clone is fitted on the dataset by its own
  \<open>self_optimize\<close>, which gets the fit options (sections 4.2 and 4.5).
\<close>

definition Optimize_optimize :: "('d, 'b) env \<Rightarrow> addr \<Rightarrow> 'd \<Rightarrow> kwargs \<Rightarrow> ('b, addr) m" where
  "Optimize_optimize env p dataset optimize_params =
     and_then (clone p) (\<lambda>q. self_optimize env q dataset optimize_params)"

section \<open>Cross-validation\<close>

text \<open>
  The scoring function is the caller's. It reads the fitted pipeline and the test data
  and returns the named metrics of one fold.
\<close>

type_synonym ('d, 'b) scorer = "addr \<Rightarrow> 'd \<Rightarrow> 'b world \<Rightarrow> error + (string \<times> real) list"

definition score :: "('d, 'b) scorer \<Rightarrow> addr \<Rightarrow> 'd \<Rightarrow> ('b, (string \<times> real) list) m" where
  "score scoring p test = (\<lambda>w. (scoring p test w, w))"

text \<open>
  Modelled from the spec: \<open>cross_validate\<close>, which is tpcp's and not in the source.
  The dataset is split into folds (by the external splitter); each fold clones the
  pipeline, fits the clone on the fold's train split with the fit options and scores it
  on the fold's test split; a failure in a fold fails the whole call (section 4.2).
  The result holds, for each metric name, the per-fold values under \<open>test_\<close> and the name.
\<close>

fun cv_folds ::
  "('d, 'b) env \<Rightarrow> addr \<Rightarrow> ('d \<times> 'd) list \<Rightarrow> kwargs \<Rightarrow> ('d, 'b) scorer
     \<Rightarrow> ('b, (string \<times> real) list list) m" where
  "cv_folds env p [] optimize_params scoring = ret []"
| "cv_folds env p ((train, test) # folds) optimize_params scoring =
     and_then (Optimize_optimize env p train optimize_params) (\<lambda>q.
     and_then (score scoring q test) (\<lambda>s.
     and_then (cv_folds env p folds optimize_params scoring) (\<lambda>rest.
     ret (s # rest))))"

definition cv_results :: "(string \<times> real) list list \<Rightarrow> (string \<times> real list) list" where
  "cv_results scores =
     (case scores of
        [] \<Rightarrow> []
      | s # _ \<Rightarrow> map (\<lambda>name. (''test_'' @ name, List.map_filter (\<lambda>s'. map_of s' name) scores))
                   (map fst s))"

definition cross_validate ::
  "('d, 'b) env \<Rightarrow> addr \<Rightarrow> 'd \<Rightarrow> nat \<Rightarrow> kwargs \<Rightarrow> ('d, 'b) scorer
     \<Rightarrow> ('b, (string \<times> real list) list) m" where
  "cross_validate env optimizable dataset cv optimize_params scoring =
     and_then (cv_folds env optimizable (kfold env cv dataset) optimize_params scoring)
       (\<lambda>scores. ret (cv_results scores))"

text \<open>
  \<open>np.mean\<close> of a sequence of floats. On the empty sequence numpy returns nan, which
  the study does not accept as an objective value: the model fails there.
\<close>

definition np_mean :: "real list \<Rightarrow> ('b, real) m" where
  "np_mean xs = (if xs = [] then raise (ValueError ''nan'') else ret (sum_list xs / real (length xs)))"

section \<open>The persisted study\<close>

datatype direction = Maximize | Minimize

record study =
  key :: "string \<times> string"
  direction :: direction
  sampler_seed :: int

record trial_handle =
  study :: study
  trial_id :: nat

text \<open>
  Modelled from the spec: \<open>optuna.create_study\<close> with \<open>load_if_exists=True\<close>, which
  is optuna's and not in the source. A persisted study under the identity is resumed
  with all its trials; otherwise an empty study is created (section 4.4).
\<close>

definition create_study :: "direction \<Rightarrow> string \<Rightarrow> int \<Rightarrow> string \<Rightarrow> ('b, study) m" where
  "create_study direction' name seed' storage' = (\<lambda>w.
     (Inr \<lparr>key = (storage', name), direction = direction', sampler_seed = seed'\<rparr>,
      case db w (storage', name) of
        None \<Rightarrow> w\<lparr>db := (db w)((storage', name) \<mapsto> [])\<rparr>
      | Some _ \<Rightarrow> w))"

definition update_trial :: "string \<times> string \<Rightarrow> nat \<Rightarrow> (trial \<Rightarrow> trial) \<Rightarrow> ('b, unit) m" where
  "update_trial k n f = (\<lambda>w. case db w k of
       None \<Rightarrow> (Inl (KeyError ''study''), w)
     | Some trials \<Rightarrow>
         if n < length trials then (Inr (), w\<lparr>db := (db w)(k \<mapsto> trials[n := f (trials ! n)])\<rparr>)
         else (Inl (KeyError ''trial''), w))"

text \<open>
  Modelled from the spec: \<open>trial.suggest_int(name, low, high)\<close> and
  \<open>trial.suggest_float(name, low, high)\<close>, which are optuna's and not in the source.
  The study's sampler, with its fixed seed, proposes a value for the name from the trials
  recorded so far (sections 2 and 4.4), and the value is recorded in the running trial.
  The objective asks for each name once.
\<close>

definition suggest ::
  "('d, 'b) env \<Rightarrow> trial_handle \<Rightarrow> string \<Rightarrow> distribution \<Rightarrow> ('b, pyval) m" where
  "suggest env trial name distr = (\<lambda>w. case db w (key (study trial)) of
       None \<Rightarrow> (Inl (KeyError ''study''), w)
     | Some trials \<Rightarrow>
         (let v = TPESampler env (sampler_seed (study trial)) trials (trial_id trial) name distr
          in and_then (update_trial (key (study trial)) (trial_id trial)
                         (\<lambda>t. t\<lparr>params := dict_set name v (params t)\<rparr>))
               (\<lambda>_. ret v) w))"

definition suggest_int ::
  "('d, 'b) env \<Rightarrow> trial_handle \<Rightarrow> string \<Rightarrow> int \<Rightarrow> int \<Rightarrow> ('b, pyval) m" where
  "suggest_int env trial name low high = suggest env trial name (IntDistribution low high)"

definition suggest_float ::
  "('d, 'b) env \<Rightarrow> trial_handle \<Rightarrow> string \<Rightarrow> real \<Rightarrow> real \<Rightarrow> ('b, pyval) m" where
  "suggest_float env trial name low high = suggest env trial name (FloatDistribution low high)"

text \<open>
  Modelled from the spec: \<open>study.optimize(objective, n_trials)\<close>, which is optuna's and
  not in the source. For each of the new trials a running trial is appended to the log,
  the objective is invoked on it and the trial is recorded as completed with its objective
  value, as pruned, or as failed; a failed trial does not abort the remaining budget
  (sections 4.4 and 7).
\<close>

fun outcome :: "error + real \<Rightarrow> trial_state" where
  "outcome (Inr v) = COMPLETE v"
| "outcome (Inl e) = (if e = TrialPruned then PRUNED else FAIL)"

definition run_trial :: "study \<Rightarrow> (trial_handle \<Rightarrow> ('b, real) m) \<Rightarrow> ('b, unit) m" where
  "run_trial st objective' = (\<lambda>w. case db w (key st) of
       None \<Rightarrow> (Inl (KeyError ''study''), w)
     | Some trials \<Rightarrow>
         (case objective' \<lparr>study = st, trial_id = length trials\<rparr>
                 (w\<lparr>db := (db w)(key st \<mapsto>
                      trials @ [\<lparr>number = length trials, params = [], state = RUNNING\<rparr>])\<rparr>) of
            (r, w') \<Rightarrow> update_trial (key st) (length trials) (\<lambda>t. t\<lparr>state := outcome r\<rparr>) w'))"

fun study_optimize :: "study \<Rightarrow> (trial_handle \<Rightarrow> ('b, real) m) \<Rightarrow> nat \<Rightarrow> ('b, unit) m" where
  "study_optimize st objective' 0 = ret ()"
| "study_optimize st objective' (Suc n) =
     and_then (run_trial st objective') (\<lambda>_. study_optimize st objective' n)"

text \<open>
  Modelled from the spec: \<open>study.best_trial\<close> and \<open>study.best_params\<close>, which are
  optuna's and not in the source. The best trial is the completed trial with the extremal
  objective for the study's direction (the earliest one among equals); the selection
  fails with \<open>NoCompletedTrials\<close> when no trial is completed (section 4.4).
\<close>

definition completed_value :: "trial \<Rightarrow> real option" where
  "completed_value t = (case state t of COMPLETE v \<Rightarrow> Some v | _ \<Rightarrow> None)"

fun better :: "direction \<Rightarrow> real \<Rightarrow> real \<Rightarrow> bool" where
  "better Maximize a b = (b < a)"
| "better Minimize a b = (a < b)"

fun select_best :: "direction \<Rightarrow> trial list \<Rightarrow> (trial \<times> real) option" where
  "select_best d [] = None"
| "select_best d (t # ts) =
     (case completed_value t of
        None \<Rightarrow> select_best d ts
      | Some v \<Rightarrow>
          (case select_best d ts of
             None \<Rightarrow> Some (t, v)
           | Some (t', v') \<Rightarrow> if better d v' v then Some (t', v') else Some (t, v)))"

definition best_trial :: "direction \<Rightarrow> trial list \<Rightarrow> error + trial" where
  "best_trial d trials =
     (case select_best d trials of
        None \<Rightarrow> Inl NoCompletedTrials
      | Some (t, v) \<Rightarrow> Inr t)"

definition best_params :: "study \<Rightarrow> ('b, kwargs) m" where
  "best_params st = (\<lambda>w. case db w (key st) of
       None \<Rightarrow> (Inl (KeyError ''study''), w)
     | Some trials \<Rightarrow>
         (case best_trial (direction st) trials of
            Inl e \<Rightarrow> (Inl e, w)
          | Inr t \<Rightarrow> (Inr (params t), w)))"

section \<open>XGBOptuna\<close>

record ('d, 'b) XGBOptuna =
  pipeline :: addr
  score_function :: "('d, 'b) scorer"
  seed :: int
  modality :: "string list"
  classification_type :: string
  optimized_pipeline :: "addr option"

text \<open>
  \<open>XGBOptuna.__init__\<close> (lines 96 to 102). The field \<open>optimized_pipeline\<close> is the
  attribute \<open>optimized_pipeline_\<close> that \<open>optimize\<close> sets.
\<close>

definition XGBOptuna_init ::
  "addr \<Rightarrow> ('d, 'b) scorer \<Rightarrow> string list \<Rightarrow> string \<Rightarrow> int \<Rightarrow> ('d, 'b) XGBOptuna" where
  "XGBOptuna_init pipeline' score_function' modality' classification_type' seed' =
     \<lparr>pipeline = pipeline',
      score_function = score_function',
      seed = seed',
      modality = modality',
      classification_type = classification_type',
      optimized_pipeline = None\<rparr>"

text \<open>
  The dictionary \<open>paras_to_be_searched\<close> of \<open>objective\<close> (lines 108 to 117): eight
  values asked of the trial, each with its search range.
\<close>

definition paras_to_be_searched :: "('d, 'b) env \<Rightarrow> trial_handle \<Rightarrow> ('b, kwargs) m" where
  "paras_to_be_searched env trial =
     and_then (suggest_int env trial ''n_estimators'' 200 400) (\<lambda>n_estimators'.
     and_then (suggest_int env trial ''max_depth'' 5 25) (\<lambda>max_depth'.
     and_then (suggest_int env trial ''reg_alpha'' 0 25) (\<lambda>reg_alpha'.
     and_then (suggest_int env trial ''reg_lambda'' 0 25) (\<lambda>reg_lambda'.
     and_then (suggest_int env trial ''min_child_weight'' 0 25) (\<lambda>min_child_weight'.
     and_then (suggest_int env trial ''gamma'' 5 25) (\<lambda>gamma'.
     and_then (suggest_float env trial ''learning_rate'' (1 / 100) (1 / 10)) (\<lambda>learning_rate'.
     and_then (suggest_float env trial ''colsample_bytree'' (1 / 10) 1) (\<lambda>colsample_bytree'.
     ret [(''n_estimators'', n_estimators'),
          (''max_depth'', max_depth'),
          (''reg_alpha'', reg_alpha'),
          (''reg_lambda'', reg_lambda'),
          (''min_child_weight'', min_child_weight'),
          (''gamma'', gamma'),
          (''learning_rate'', learning_rate'),
          (''colsample_bytree'', colsample_bytree')]))))))))"

text \<open>
  \<open>objective\<close> (lines 107 to 136): a clone of the pipeline gets the sampled parameters
  and is cross-validated in five folds with the caller's scoring function; the fit
  options hold the early-stopping rounds and the pruning callback on \<open>test_mcc\<close>. The
  value of the trial is the mean of the per-fold values of \<open>test_mcc\<close>.
\<close>

definition objective ::
  "('d, 'b) env \<Rightarrow> ('d, 'b) XGBOptuna \<Rightarrow> 'd \<Rightarrow> trial_handle \<Rightarrow> ('b, real) m" where
  "objective env self dataset trial =
     and_then (paras_to_be_searched env trial) (\<lambda>paras.
     and_then (clone (pipeline self)) (\<lambda>cl.
     and_then (set_params cl paras) (\<lambda>temp_pipeline.
     and_then (cross_validate env temp_pipeline dataset 5
                 [(''early_stopping_rounds'', PInt 10),
                  (''pruning_callback'', PruningCallback ''test_mcc'')]
                 (score_function self)) (\<lambda>results.
     and_then (getitem results ''test_mcc'') np_mean))))"

text \<open>
  \<open>XGBClassifier(objective="binary:logistic", **best_params)\<close>: a keyword given twice
  is a \<open>TypeError\<close>.
\<close>

definition XGBClassifier_binary :: "kwargs \<Rightarrow> ('b, addr) m" where
  "XGBClassifier_binary best =
     (if ''objective'' \<in> set (map fst best) then raise (TypeError ''objective'')
      else XGBClassifier_init ((''objective'', PStr ''binary:logistic'') # best))"

text \<open>
  \<open>XGBOptuna.optimize\<close> (lines 104 to 170). The study is created or loaded under the
  name and storage computed from the modality list and the classification type, one
  trial is run, and the best parameters, with a new classifier built from them, are set
  in a clone of the pipeline, which is then optimized on the whole dataset.
\<close>

definition optimize ::
  "('d, 'b) env \<Rightarrow> ('d, 'b) XGBOptuna \<Rightarrow> 'd \<Rightarrow> kwargs \<Rightarrow> ('b, ('d, 'b) XGBOptuna) m" where
  "optimize env self dataset optimize_params =
     and_then (create_study Maximize (study_name (modality self)) (seed self)
                 (storage (get_db_path env) (modality self) (classification_type self))) (\<lambda>study'.
     and_then (study_optimize study' (objective env self dataset) 1) (\<lambda>_.
     and_then (best_params study') (\<lambda>best_parameters.
     and_then (if classification_type self = ''binary''
               then XGBClassifier_binary best_parameters
               else XGBClassifier_init best_parameters) (\<lambda>c.
     and_then (clone (pipeline self)) (\<lambda>cl.
     and_then (set_params cl (dict_set ''classifier'' (PRef c) best_parameters)) (\<lambda>p.
     and_then (Optimize_optimize env p dataset optimize_params) (\<lambda>opt.
     ret (self\<lparr>optimized_pipeline := Some opt\<rparr>))))))))"

section \<open>Auxiliary notions\<close>

text \<open>
  \<open>frame P C w w'\<close>: from \<open>w\<close> to \<open>w'\<close> nothing is deallocated, and every pipeline
  object and every classifier object that exists in \<open>w\<close> is unchanged, the pipelines in
  \<open>P\<close> and the classifiers in \<open>C\<close> excepted.
\<close>

definition frame :: "addr set \<Rightarrow> addr set \<Rightarrow> 'b world \<Rightarrow> 'b world \<Rightarrow> bool" where
  "frame P C w w' \<longleftrightarrow>
     next_id w \<le> next_id w' \<and>
     (\<forall>a<next_id w. (a \<notin> P \<longrightarrow> pipelines w' a = pipelines w a)
                    \<and> (a \<notin> C \<longrightarrow> classifiers w' a = classifiers w a))"

text \<open>The dictionary \<open>params\<close> that \<open>_set_classifier_params\<close> builds from the pipeline.\<close>

definition hyperparameters :: "XGBPipeline \<Rightarrow> kwargs" where
  "hyperparameters pl =
     [(''n_estimators'', n_estimators pl),
      (''max_depth'', max_depth pl),
      (''reg_alpha'', reg_alpha pl),
      (''reg_lambda'', reg_lambda pl),
      (''min_child_weight'', min_child_weight pl),
      (''gamma'', gamma pl),
      (''learning_rate'', learning_rate pl),
      (''colsample_bytree'', colsample_bytree pl)]"

text \<open>The label column that \<open>self_optimize\<close> reads: one name for the two branches.\<close>

definition target_column :: "XGBPipeline \<Rightarrow> string" where
  "target_column pl = (if XGBPipeline.classification_type pl = ''binary'' then ''sleep'' else XGBPipeline.classification_type pl)"

text \<open>The record the constructor builds for the clone of a pipeline, with classifier \<open>c\<close>.\<close>

definition cloned :: "XGBPipeline \<Rightarrow> addr \<Rightarrow> XGBPipeline" where
  "cloned pl c =
       \<lparr>classifier = PRef c,
        modality = XGBPipeline.modality pl,
        n_estimators = n_estimators pl,
        max_depth = max_depth pl,
        reg_alpha = reg_alpha pl,
        reg_lambda = reg_lambda pl,
        min_child_weight = min_child_weight pl,
        gamma = gamma pl,
        learning_rate = learning_rate pl,
        colsample_bytree = colsample_bytree pl,
        classification_type = XGBPipeline.classification_type pl,
        epoch_length = 30,
        algorithm = ''xgb'',
        classification = None\<rparr>"

text \<open>A value lies in a search range: it has the type of the range and lies between its bounds.\<close>

fun contains :: "distribution \<Rightarrow> pyval \<Rightarrow> bool" where
  "contains (IntDistribution low high) (PInt v) = (low \<le> v \<and> v \<le> high)"
| "contains (FloatDistribution low high) (PFloat v) = (low \<le> v \<and> v \<le> high)"
| "contains _ _ = False"

text \<open>The names of the eight hyperparameters, in the order of \<open>paras_to_be_searched\<close>.\<close>

definition hp_names :: "string list" where
  "hp_names = [''n_estimators'', ''max_depth'', ''reg_alpha'', ''reg_lambda'', ''min_child_weight'',
               ''gamma'', ''learning_rate'', ''colsample_bytree'']"

text \<open>The trials persisted for a study; a study that does not exist has none.\<close>

definition study_log :: "'b world \<Rightarrow> string \<times> string \<Rightarrow> trial list" where
  "study_log w k = (case db w k of None \<Rightarrow> [] | Some ts \<Rightarrow> ts)"

text \<open>
  \<open>sampled w h ts ps w'\<close>: \<open>w'\<close> is \<open>w\<close> with the parameters \<open>ps\<close> recorded in the
  running trial of the handle \<open>h\<close>, whose study has the trials \<open>ts\<close> in \<open>w\<close>.
\<close>

definition sampled :: "'b world \<Rightarrow> trial_handle \<Rightarrow> trial list \<Rightarrow> kwargs \<Rightarrow> 'b world \<Rightarrow> bool" where
  "sampled w h ts ps w' \<longleftrightarrow>
     db w' = (db w)(key (study h) \<mapsto> ts[trial_id h := (ts ! trial_id h)\<lparr>params := ps\<rparr>])
     \<and> pipelines w' = pipelines w \<and> classifiers w' = classifiers w \<and> next_id w' = next_id w"

text \<open>The identity under which \<open>optimize\<close> persists its study: storage key and study name.\<close>

definition study_key :: "('d, 'b) env \<Rightarrow> ('d, 'b) XGBOptuna \<Rightarrow> string \<times> string" where
  "study_key env self =
     (storage (get_db_path env) (modality self) (classification_type self), study_name (modality self))"

text \<open>
  A dataset can be trained on: its label table has the column, and the training succeeds
  on its features and that column for all parameters.
\<close>

definition trainable :: "('d, 'b) env \<Rightarrow> string list \<Rightarrow> string \<Rightarrow> 'd \<Rightarrow> bool" where
  "trainable env m col ds \<longleftrightarrow>
     (\<exists>y. map_of (snd (get_concat_dataset env ds m)) col = Some y
        \<and> (\<forall>ps. \<exists>b. xgb_fit env ps (fst (get_concat_dataset env ds m)) y = Inr b))"


section \<open>A small instance\<close>

text \<open>
  A store with one pipeline, built with the constructor's default hyperparameters for the
  modalities \<open>acc\<close> and \<open>hr\<close> in the binary mode, and its untrained classifier; a dataset
  of ten subjects whose label table has the columns \<open>sleep\<close> and \<open>5stage\<close>; a training
  that fails on an empty table only; a splitter that puts subject \<open>x\<close> into the test
  group of fold \<open>x mod k\<close>; and a sampler that proposes the lower end of each range.
\<close>

definition example_classifier :: "nat XGBClassifier" where
  "example_classifier = \<lparr>xgb_params = [(''n_jobs'', PInt (- 1))], booster = None\<rparr>"

definition example_pipeline :: XGBPipeline where
  "example_pipeline =
     \<lparr>classifier = PRef 0,
      modality = [''acc'', ''hr''],
      n_estimators = PInt 100,
      max_depth = PInt 10,
      reg_alpha = PInt 0,
      reg_lambda = PInt 0,
      min_child_weight = PInt 0,
      gamma = PFloat 0,
      learning_rate = PFloat (5 / 1000),
      colsample_bytree = PFloat (1 / 10),
      classification_type = ''binary'',
      epoch_length = 30,
      algorithm = ''xgb'',
      classification = None\<rparr>"

definition example_world :: "nat world" where
  "example_world =
     \<lparr>pipelines = [1 \<mapsto> example_pipeline],
      classifiers = [0 \<mapsto> example_classifier],
      next_id = 2,
      db = Map.empty\<rparr>"

definition example_env :: "(nat list, nat) env" where
  "example_env =
     \<lparr>get_db_path = ''/data'',
      get_concat_dataset = (\<lambda>ds m. (map (\<lambda>i. [real i]) ds,
         [(''sleep'', map (\<lambda>i. int (i mod 2)) ds), (''5stage'', map (\<lambda>i. int (i mod 5)) ds)])),
      get_features = (\<lambda>ds m. map (\<lambda>i. [real i]) ds),
      xgb_fit = (\<lambda>kw X y. if X = [] then Inl (TrainingError ''empty'') else Inr (length X)),
      xgb_predict = (\<lambda>b X. map (\<lambda>r. 1) X),
      kfold = (\<lambda>k ds. map (\<lambda>i. (filter (\<lambda>x. x mod k \<noteq> i) ds, filter (\<lambda>x. x mod k = i) ds)) [0..<k]),
      TPESampler = (\<lambda>s ts n name d. case d of
          IntDistribution low high \<Rightarrow> PInt low
        | FloatDistribution low high \<Rightarrow> PFloat low)\<rparr>"

definition example_dataset :: "nat list" where
  "example_dataset = [0, 1, 2, 3, 4, 5, 6, 7, 8, 9]"

definition example_study :: study where
  "example_study = \<lparr>key = (''storage'', ''name''), direction = Maximize, sampler_seed = 1\<rparr>"

definition example_trial :: trial_handle where
  "example_trial = \<lparr>study = example_study, trial_id = 0\<rparr>"

text \<open>The store after the study has been created and its first trial has started.\<close>

definition example_running :: "nat world" where
  "example_running =
     example_world\<lparr>db := [(''storage'', ''name'') \<mapsto> [\<lparr>number = 0, params = [], state = RUNNING\<rparr>]]\<rparr>"

text \<open>
  A scoring function that reports the metric \<open>mcc\<close> as 0.5 on every fold, and the
  optimizer for the pipeline of the store.
\<close>

definition example_scorer :: "(nat list, nat) scorer" where
  "example_scorer p test w = Inr [(''mcc'', 1 / 2)]"

definition example_optuna :: "(nat list, nat) XGBOptuna" where
  "example_optuna = XGBOptuna_init 1 example_scorer [''acc'', ''hr''] ''binary'' 1"

section \<open>A training with a default objective\<close>





section \<open>Properties of the study identity\<close>

text \<open>
  C2, as stated, fails: the modality list is joined in the order given, never sorted, so
  the same modalities in another order give another study name and another storage key.
\<close>

theorem study_identity_order_counterexample:
  "set [''acc'', ''hr''] = set [''hr'', ''acc''] \<and>
   study_identity ''/data'' [''acc'', ''hr''] ''binary''
     \<noteq> study_identity ''/data'' [''hr'', ''acc''] ''binary''"
  by (simp add: study_identity_def study_name_def storage_def insert_commute)

text \<open>
  C2, amended: the study identity is computed from the modality list in the order given
  and the classification mode (and the database path); for the same path and the same
  modality list, two different classification modes give different identities: the study
  name is the same and the storage key differs.
\<close>

theorem study_identity_mode_injective:
  "ct1 \<noteq> ct2 \<Longrightarrow>
     study_identity db_path ms ct1 \<noteq> study_identity db_path ms ct2
     \<and> fst (study_identity db_path ms ct1) = fst (study_identity db_path ms ct2)
     \<and> snd (study_identity db_path ms ct1) \<noteq> snd (study_identity db_path ms ct2)"
  by (simp add: study_identity_def storage_def)

theorem study_identity_mode_injective_witness:
  "''binary'' \<noteq> ''5stage'' \<and>
   study_identity ''/data'' [''acc'', ''hr''] ''binary''
     \<noteq> study_identity ''/data'' [''acc'', ''hr''] ''5stage''"
  using study_identity_mode_injective [of "''binary''" "''5stage''" "''/data''" "[''acc'', ''hr'']"]
  by simp

section \<open>Basic facts about the operations\<close>

lemma frame_refl: "frame P C w w"
  by (simp add: frame_def)

lemma frame_trans:
  "frame P C w w' \<Longrightarrow> frame P' C' w' w'' \<Longrightarrow>
   (\<forall>a\<in>P'. a \<in> P \<or> next_id w \<le> a) \<Longrightarrow> (\<forall>a\<in>C'. a \<in> C \<or> next_id w \<le> a) \<Longrightarrow>
   frame P C w w''"
  unfolding frame_def by (metis leD le_trans order_less_le_trans)

lemma and_then_cases:
  assumes "and_then f g w = (r, w'')"
  obtains (fail) e where "f w = (Inl e, w'')" "r = Inl e"
        | (ok) x w' where "f w = (Inr x, w')" "g x w' = (r, w'')"
  using assms by (auto simp: and_then_def split: prod.splits sum.splits)

lemma alloc_classifier_run:
  "alloc_classifier c w = (r, w') \<Longrightarrow>
     r = Inr (next_id w) \<and> next_id w' = Suc (next_id w) \<and> db w' = db w \<and> pipelines w' = pipelines w
     \<and> classifiers w' = (classifiers w)(next_id w \<mapsto> c)"
  by (auto simp: alloc_classifier_def)

lemma alloc_pipeline_run:
  "alloc_pipeline pl w = (r, w') \<Longrightarrow>
     r = Inr (next_id w) \<and> next_id w' = Suc (next_id w) \<and> db w' = db w \<and> classifiers w' = classifiers w
     \<and> pipelines w' = (pipelines w)(next_id w \<mapsto> pl)"
  by (auto simp: alloc_pipeline_def)

lemma sklearn_clone_frame:
  "sklearn_clone v w = (r, w') \<Longrightarrow> frame {} {} w w' \<and> db w' = db w"
  by (auto simp: sklearn_clone_def frame_def alloc_classifier_def split: pyval.splits option.splits)

lemma clone_frame:
  "clone p w = (r, w') \<Longrightarrow> frame {} {} w w' \<and> db w' = db w"
  by (auto simp: clone_def sklearn_clone_def frame_def alloc_classifier_def XGBPipeline_init_def alloc_pipeline_def and_then_def
      split: pyval.splits option.splits)

lemma set_params_frame:
  "set_params p ps w = (r, w') \<Longrightarrow> frame {p} {} w w' \<and> db w' = db w \<and> next_id w' = next_id w"
  by (auto simp: set_params_def frame_def split: option.splits prod.splits)

lemma self_optimize_frame:
  "self_optimize env self ds kw w = (r, w') \<Longrightarrow> frame {self} {} w w' \<and> db w' = db w"
  by (auto simp: self_optimize_def sklearn_clone_def frame_def alloc_classifier_def set_classifier_params_def
        XGBClassifier_set_params_def getitem_def fit_def set_classifier_def raise_def ret_def and_then_def
      split: pyval.splits option.splits prod.splits sum.splits if_splits)

lemma Optimize_optimize_frame:
  assumes "Optimize_optimize env p ds kw w = (r, w')"
  shows "frame {} {} w w' \<and> db w' = db w"
  using assms unfolding Optimize_optimize_def
proof (cases rule: and_then_cases)
  case (fail e)
  then show ?thesis using clone_frame by blast
next
  case (ok q w1)
  have q: "next_id w \<le> q" using ok(1)
    by (auto simp: clone_def sklearn_clone_def alloc_classifier_def XGBPipeline_init_def alloc_pipeline_def and_then_def
      split: pyval.splits option.splits)
  from clone_frame[OF ok(1)] self_optimize_frame[OF ok(2)] q show ?thesis
    by (auto intro: frame_trans)
qed

lemma score_run: "score sc p t w = (r, w') \<Longrightarrow> w' = w"
  by (auto simp: score_def)

lemma cv_folds_frame:
  "cv_folds env p folds kw sc w = (r, w') \<Longrightarrow> frame {} {} w w' \<and> db w' = db w"
proof (induction folds arbitrary: w r w')
  case Nil
  then show ?case by (simp add: ret_def frame_refl)
next
  case (Cons f folds)
  obtain train test where f: "f = (train, test)" by (cases f)
  from Cons.prems show ?case
    unfolding f cv_folds.simps
  proof (cases rule: and_then_cases)
    case (fail e)
    then show ?thesis by (simp add: Optimize_optimize_frame)
  next
    case (ok q w1)
    note o1 = Optimize_optimize_frame[OF ok(1)]
    from ok(2) show ?thesis
    proof (cases rule: and_then_cases)
      case (fail e)
      then have "w' = w1" by (simp add: score_run)
      then show ?thesis using o1 by simp
    next
      case (ok s w2)
      have w2: "w2 = w1" using ok(1) by (simp add: score_run)
      from ok(2) show ?thesis
      proof (cases rule: and_then_cases)
        case (fail e)
        from Cons.IH[OF fail(1)] o1 show ?thesis unfolding w2
          by (auto intro: frame_trans)
      next
        case (ok rest w3)
        from ok(2) have "w' = w3" by (simp add: ret_def)
        with Cons.IH[OF ok(1)] o1 show ?thesis unfolding w2
          by (auto intro: frame_trans)
      qed
    qed
  qed
qed

lemma cross_validate_frame:
  "cross_validate env p ds cv kw sc w = (r, w') \<Longrightarrow> frame {} {} w w' \<and> db w' = db w"
  unfolding cross_validate_def
  by (erule and_then_cases) (auto simp: ret_def dest: cv_folds_frame)

lemma suggest_run:
  assumes "suggest env h name d w = (r, w')"
  shows "pipelines w' = pipelines w \<and> classifiers w' = classifiers w \<and> next_id w' = next_id w"
    and "db w (key (study h)) = Some ts \<Longrightarrow> trial_id h < length ts \<Longrightarrow>
           r = Inr (TPESampler env (sampler_seed (study h)) ts (trial_id h) name d)
           \<and> db w' = (db w)(key (study h) \<mapsto> ts[trial_id h := (ts ! trial_id h)
                 \<lparr>params := dict_set name (TPESampler env (sampler_seed (study h)) ts (trial_id h) name d)
                     (params (ts ! trial_id h))\<rparr>])"
  using assms
  by (auto simp: suggest_def update_trial_def and_then_def ret_def Let_def split: option.splits if_splits)

lemma clone_ok:
  assumes "pipelines w p = Some pl" "classifier pl = PRef a" "classifiers w a = Some cl"
  shows "\<exists>w'. clone p w = (Inr (Suc (next_id w)), w')
           \<and> classifiers w' = (classifiers w)(next_id w \<mapsto> cl\<lparr>booster := None\<rparr>)
           \<and> pipelines w' = (pipelines w)(Suc (next_id w) \<mapsto> cloned pl (next_id w))
           \<and> next_id w' = Suc (Suc (next_id w)) \<and> db w' = db w"
  using assms
  by (simp add: clone_def sklearn_clone_def alloc_classifier_def XGBPipeline_init_def alloc_pipeline_def
      and_then_def cloned_def)

lemma clone_Inr:
  assumes "clone p w = (Inr q, w')"
  obtains pl a cl where "pipelines w p = Some pl" "classifier pl = PRef a" "classifiers w a = Some cl"
  using assms
  by (auto simp: clone_def sklearn_clone_def and_then_def split: option.splits pyval.splits)

lemma self_optimize_alt:
  "self_optimize env self ds kw w =
     (case pipelines w self of
        None \<Rightarrow> (Inl (AttributeError ''self_optimize''), w)
      | Some pl \<Rightarrow>
         (case get_concat_dataset env ds (XGBPipeline.modality pl) of (X, gt) \<Rightarrow>
            and_then (sklearn_clone (classifier pl)) (\<lambda>c0.
            and_then (XGBClassifier_set_params c0 (hyperparameters pl)) (\<lambda>c.
            and_then (getitem gt (target_column pl)) (\<lambda>y.
            and_then (fit env c X y) (\<lambda>c'. set_classifier self c')))) w))"
  by (simp add: self_optimize_def set_classifier_params_def hyperparameters_def target_column_def
      split: option.splits prod.splits)

lemma self_optimize_ok:
  assumes "pipelines w q = Some pl" "classifier pl = PRef a" "classifiers w a = Some cl"
    and "get_concat_dataset env ds (XGBPipeline.modality pl) = (X, gt)"
    and "map_of gt (target_column pl) = Some y"
    and "xgb_fit env (dict_update (xgb_params cl) (hyperparameters pl)) X y = Inr b"
  shows "\<exists>w'. self_optimize env q ds kw w = (Inr q, w')
           \<and> classifiers w' = (classifiers w)(next_id w \<mapsto>
                 cl\<lparr>xgb_params := dict_update (xgb_params cl) (hyperparameters pl), booster := Some b\<rparr>)
           \<and> pipelines w' = (pipelines w)(q \<mapsto> pl\<lparr>classifier := PRef (next_id w)\<rparr>)
           \<and> next_id w' = Suc (next_id w) \<and> db w' = db w"
  using assms
  by (simp add: self_optimize_alt sklearn_clone_def alloc_classifier_def
        XGBClassifier_set_params_def getitem_def fit_def set_classifier_def ret_def and_then_def)

lemma self_optimize_missing:
  assumes "pipelines w q = Some pl" "classifier pl = PRef a" "classifiers w a = Some cl"
    and "map_of (snd (get_concat_dataset env ds (XGBPipeline.modality pl))) (target_column pl) = None"
  shows "fst (self_optimize env q ds kw w) = Inl (KeyError (target_column pl))"
  using assms
  by (auto simp: self_optimize_alt sklearn_clone_def alloc_classifier_def
        XGBClassifier_set_params_def getitem_def raise_def and_then_def
      split: prod.splits)

lemma self_optimize_Inr:
  assumes "self_optimize env q ds kw w = (Inr r, w')"
  obtains pl a cl X gt y b where "pipelines w q = Some pl" "classifier pl = PRef a" "classifiers w a = Some cl"
     "get_concat_dataset env ds (XGBPipeline.modality pl) = (X, gt)"
     "map_of gt (target_column pl) = Some y"
     "xgb_fit env (dict_update (xgb_params cl) (hyperparameters pl)) X y = Inr b"
  using assms
  by (auto simp: self_optimize_alt sklearn_clone_def alloc_classifier_def
        XGBClassifier_set_params_def getitem_def fit_def set_classifier_def ret_def raise_def and_then_def
      split: option.splits pyval.splits prod.splits sum.splits if_splits)

lemma select_best_None: "select_best d ts = None \<longleftrightarrow> (\<forall>t\<in>set ts. completed_value t = None)"
  by (induction ts) (auto split: option.splits prod.splits)

lemma select_best_mem:
  "select_best d ts = Some (b, v) \<Longrightarrow> b \<in> set ts \<and> completed_value b = Some v"
  by (induction ts arbitrary: b v) (auto split: option.splits prod.splits if_splits)

lemma select_best_max:
  "select_best Maximize ts = Some (b, v) \<Longrightarrow> t \<in> set ts \<Longrightarrow> completed_value t = Some u \<Longrightarrow> u \<le> v"
proof (induction ts arbitrary: b v)
  case Nil
  then show ?case by simp
next
  case (Cons x xs)
  show ?case
  proof (cases "completed_value x")
    case None
    with Cons show ?thesis by auto
  next
    case (Some vx)
    show ?thesis
    proof (cases "select_best Maximize xs")
      case None
      then have "\<forall>t\<in>set xs. completed_value t = None" by (simp add: select_best_None)
      with Cons.prems Some None show ?thesis by auto
    next
      case (Some r)
      obtain b' v' where r: "r = (b', v')" by (cases r)
      have IH: "t \<in> set xs \<Longrightarrow> u \<le> v'" using Cons.IH[of b' v'] Some r Cons.prems(3) by simp
      from Cons.prems(1) \<open>completed_value x = Some vx\<close> Some r
      have v: "v = (if vx < v' then v' else vx)" by (auto split: if_splits)
      show ?thesis
      proof (cases "t = x")
        case True
        with Cons.prems(3) \<open>completed_value x = Some vx\<close> have "u = vx" by simp
        with v show ?thesis by simp
      next
        case False
        with Cons.prems(2) have "t \<in> set xs" by simp
        from IH[OF this] v show ?thesis by simp
      qed
    qed
  qed
qed

lemma completed_value_iff: "completed_value t = Some v \<longleftrightarrow> state t = COMPLETE v"
  by (cases "state t") (auto simp: completed_value_def)

lemma best_trial_maximal:
  assumes "t0 \<in> set ts" "state t0 = COMPLETE v0"
  shows "\<exists>b v. best_trial Maximize ts = Inr b \<and> b \<in> set ts \<and> state b = COMPLETE v
           \<and> (\<forall>t\<in>set ts. \<forall>u. state t = COMPLETE u \<longrightarrow> u \<le> v)"
proof -
  from assms have "completed_value t0 = Some v0" by (simp add: completed_value_iff)
  with assms(1) have "select_best Maximize ts \<noteq> None" by (auto simp: select_best_None)
  then obtain b v where sb: "select_best Maximize ts = Some (b, v)" by auto
  from select_best_mem[OF sb] have "b \<in> set ts" "state b = COMPLETE v"
    by (simp_all add: completed_value_iff)
  moreover have "\<forall>t\<in>set ts. \<forall>u. state t = COMPLETE u \<longrightarrow> u \<le> v"
    using select_best_max[OF sb] by (auto simp: completed_value_iff)
  ultimately show ?thesis using sb by (simp add: best_trial_def)
qed

lemma suggest_Inr:
  "suggest env h name d w = (Inr v, w') \<Longrightarrow>
     \<exists>ts. v = TPESampler env (sampler_seed (study h)) ts (trial_id h) name d"
  by (auto simp: suggest_def update_trial_def and_then_def ret_def Let_def split: option.splits if_splits)

lemma paras_to_be_searched_Inr:
  assumes "paras_to_be_searched env h w = (Inr paras, w')"
  shows "\<exists>v1 v2 v3 v4 v5 v6 v7 v8 t1 t2 t3 t4 t5 t6 t7 t8.
     paras = [(''n_estimators'', v1), (''max_depth'', v2), (''reg_alpha'', v3), (''reg_lambda'', v4),
              (''min_child_weight'', v5), (''gamma'', v6), (''learning_rate'', v7), (''colsample_bytree'', v8)]
     \<and> v1 = TPESampler env (sampler_seed (study h)) t1 (trial_id h) ''n_estimators'' (IntDistribution 200 400)
     \<and> v2 = TPESampler env (sampler_seed (study h)) t2 (trial_id h) ''max_depth'' (IntDistribution 5 25)
     \<and> v3 = TPESampler env (sampler_seed (study h)) t3 (trial_id h) ''reg_alpha'' (IntDistribution 0 25)
     \<and> v4 = TPESampler env (sampler_seed (study h)) t4 (trial_id h) ''reg_lambda'' (IntDistribution 0 25)
     \<and> v5 = TPESampler env (sampler_seed (study h)) t5 (trial_id h) ''min_child_weight'' (IntDistribution 0 25)
     \<and> v6 = TPESampler env (sampler_seed (study h)) t6 (trial_id h) ''gamma'' (IntDistribution 5 25)
     \<and> v7 = TPESampler env (sampler_seed (study h)) t7 (trial_id h) ''learning_rate'' (FloatDistribution (1 / 100) (1 / 10))
     \<and> v8 = TPESampler env (sampler_seed (study h)) t8 (trial_id h) ''colsample_bytree'' (FloatDistribution (1 / 10) 1)"
  using assms unfolding paras_to_be_searched_def suggest_int_def suggest_float_def
  apply (elim and_then_cases; simp add: ret_def)
  apply (drule suggest_Inr)+
  apply blast
  done

lemma dict_set_new: "k \<notin> set (map fst qs) \<Longrightarrow> dict_set k v qs = qs @ [(k, v)]"
  by (induction qs) auto

lemma suggest_objects:
  "suggest env h name d w = (r, w') \<Longrightarrow>
     pipelines w' = pipelines w \<and> classifiers w' = classifiers w \<and> next_id w' = next_id w"
  by (auto simp: suggest_def update_trial_def and_then_def ret_def Let_def split: option.splits if_splits)

lemma suggest_step:
  assumes "sampled w h ts ps w1" "trial_id h < length ts" "name \<notin> set (map fst ps)"
  shows "\<exists>v w2. suggest env h name d w1 = (Inr v, w2) \<and> sampled w h ts (ps @ [(name, v)]) w2"
  using assms
  by (simp add: sampled_def suggest_def update_trial_def and_then_def ret_def Let_def dict_set_new)

lemma sampled_init:
  assumes "db w (key (study h)) = Some ts" "trial_id h < length ts" "params (ts ! trial_id h) = []"
  shows "sampled w h ts [] w"
proof -
  have "(ts ! trial_id h)\<lparr>params := []\<rparr> = ts ! trial_id h" using assms(3) by simp
  then have "ts[trial_id h := (ts ! trial_id h)\<lparr>params := []\<rparr>] = ts" by simp
  with assms(1) have "(db w)(key (study h) \<mapsto> ts[trial_id h := (ts ! trial_id h)\<lparr>params := []\<rparr>]) = db w"
    by (simp add: fun_upd_idem)
  then show ?thesis by (simp add: sampled_def)
qed

lemma paras_to_be_searched_ok:
  assumes db: "db w (key (study h)) = Some ts" and n: "trial_id h < length ts"
    and ps: "params (ts ! trial_id h) = []"
  shows "\<exists>paras w'. paras_to_be_searched env h w = (Inr paras, w') \<and> map fst paras = hp_names
      \<and> sampled w h ts paras w'"
proof -
  note S0 = sampled_init[OF db n ps]
  from suggest_step[OF S0 n, of "''n_estimators''" env "IntDistribution 200 400"]
  obtain v1 w1 where s1: "suggest env h ''n_estimators'' (IntDistribution 200 400) w = (Inr v1, w1)"
    and S1: "sampled w h ts [(''n_estimators'', v1)] w1" by auto
  from suggest_step[OF S1 n, of "''max_depth''" env "IntDistribution 5 25"]
  obtain v2 w2 where s2: "suggest env h ''max_depth'' (IntDistribution 5 25) w1 = (Inr v2, w2)"
    and S2: "sampled w h ts [(''n_estimators'', v1), (''max_depth'', v2)] w2" by auto
  from suggest_step[OF S2 n, of "''reg_alpha''" env "IntDistribution 0 25"]
  obtain v3 w3 where s3: "suggest env h ''reg_alpha'' (IntDistribution 0 25) w2 = (Inr v3, w3)"
    and S3: "sampled w h ts [(''n_estimators'', v1), (''max_depth'', v2), (''reg_alpha'', v3)] w3" by auto
  from suggest_step[OF S3 n, of "''reg_lambda''" env "IntDistribution 0 25"]
  obtain v4 w4 where s4: "suggest env h ''reg_lambda'' (IntDistribution 0 25) w3 = (Inr v4, w4)"
    and S4: "sampled w h ts [(''n_estimators'', v1), (''max_depth'', v2), (''reg_alpha'', v3),
               (''reg_lambda'', v4)] w4" by auto
  from suggest_step[OF S4 n, of "''min_child_weight''" env "IntDistribution 0 25"]
  obtain v5 w5 where s5: "suggest env h ''min_child_weight'' (IntDistribution 0 25) w4 = (Inr v5, w5)"
    and S5: "sampled w h ts [(''n_estimators'', v1), (''max_depth'', v2), (''reg_alpha'', v3),
               (''reg_lambda'', v4), (''min_child_weight'', v5)] w5" by auto
  from suggest_step[OF S5 n, of "''gamma''" env "IntDistribution 5 25"]
  obtain v6 w6 where s6: "suggest env h ''gamma'' (IntDistribution 5 25) w5 = (Inr v6, w6)"
    and S6: "sampled w h ts [(''n_estimators'', v1), (''max_depth'', v2), (''reg_alpha'', v3),
               (''reg_lambda'', v4), (''min_child_weight'', v5), (''gamma'', v6)] w6" by auto
  from suggest_step[OF S6 n, of "''learning_rate''" env "FloatDistribution (1 / 100) (1 / 10)"]
  obtain v7 w7 where s7: "suggest env h ''learning_rate'' (FloatDistribution (1 / 100) (1 / 10)) w6 = (Inr v7, w7)"
    and S7: "sampled w h ts [(''n_estimators'', v1), (''max_depth'', v2), (''reg_alpha'', v3),
               (''reg_lambda'', v4), (''min_child_weight'', v5), (''gamma'', v6),
               (''learning_rate'', v7)] w7" by auto
  from suggest_step[OF S7 n, of "''colsample_bytree''" env "FloatDistribution (1 / 10) 1"]
  obtain v8 w8 where s8: "suggest env h ''colsample_bytree'' (FloatDistribution (1 / 10) 1) w7 = (Inr v8, w8)"
    and S8: "sampled w h ts [(''n_estimators'', v1), (''max_depth'', v2), (''reg_alpha'', v3),
               (''reg_lambda'', v4), (''min_child_weight'', v5), (''gamma'', v6),
               (''learning_rate'', v7), (''colsample_bytree'', v8)] w8" by auto
  have "paras_to_be_searched env h w =
          (Inr [(''n_estimators'', v1), (''max_depth'', v2), (''reg_alpha'', v3),
               (''reg_lambda'', v4), (''min_child_weight'', v5), (''gamma'', v6),
               (''learning_rate'', v7), (''colsample_bytree'', v8)], w8)"
    by (simp add: paras_to_be_searched_def suggest_int_def suggest_float_def ret_def
        and_then_def s1 s2 s3 s4 s5 s6 s7 s8)
  with S8 show ?thesis by (simp add: hp_names_def)
qed

lemma paras_to_be_searched_objects:
  "paras_to_be_searched env h w = (r, w') \<Longrightarrow>
     pipelines w' = pipelines w \<and> classifiers w' = classifiers w \<and> next_id w' = next_id w"
  unfolding paras_to_be_searched_def suggest_int_def suggest_float_def
  by (elim and_then_cases) (auto dest!: suggest_objects simp: ret_def)

lemma clone_fresh: "clone p w = (Inr q, w') \<Longrightarrow> next_id w \<le> q"
  by (auto simp: clone_def sklearn_clone_def alloc_classifier_def XGBPipeline_init_def alloc_pipeline_def and_then_def
      split: pyval.splits option.splits)

lemma objective_rest_frame:
  assumes "and_then (clone p) (\<lambda>cl.
     and_then (set_params cl paras) (\<lambda>temp_pipeline.
     and_then (cross_validate env temp_pipeline ds cv kw sc) (\<lambda>results.
     and_then (getitem results name) np_mean))) w = (r, w')"
  shows "frame {} {} w w' \<and> db w' = db w"
  using assms
proof (cases rule: and_then_cases)
  case (fail e)
  then show ?thesis by (simp add: clone_frame)
next
  case (ok cl w1)
  note c = clone_frame[OF ok(1)] and fresh = clone_fresh[OF ok(1)]
  from ok(2) show ?thesis
  proof (cases rule: and_then_cases)
    case (fail e)
    from set_params_frame[OF fail(1)] c fresh show ?thesis by (auto intro: frame_trans)
  next
    case (ok tp w2)
    from set_params_frame[OF ok(1)] c fresh have f2: "frame {} {} w w2 \<and> db w2 = db w"
      by (auto intro: frame_trans)
    from ok(2) show ?thesis
    proof (cases rule: and_then_cases)
      case (fail e)
      from cross_validate_frame[OF fail(1)] f2 show ?thesis by (auto intro: frame_trans)
    next
      case (ok results w3)
      from cross_validate_frame[OF ok(1)] f2 have f3: "frame {} {} w w3 \<and> db w3 = db w"
        by (auto intro: frame_trans)
      have "w' = w3" using ok(2)
        by (auto simp: and_then_def getitem_def np_mean_def ret_def raise_def split: option.splits if_splits)
      with f3 show ?thesis by simp
    qed
  qed
qed

lemma objective_frame:
  assumes "objective env self ds h w = (r, w')"
  shows "frame {} {} w w'"
  using assms unfolding objective_def
proof (cases rule: and_then_cases)
  case (fail e)
  from paras_to_be_searched_objects[OF fail(1)] show ?thesis by (simp add: frame_def)
next
  case (ok paras w1)
  from paras_to_be_searched_objects[OF ok(1)] have "frame {} {} w w1" by (simp add: frame_def)
  with objective_rest_frame[OF ok(2)] show ?thesis by (auto intro: frame_trans)
qed

lemma objective_trace:
  assumes db: "db w (key (study h)) = Some ts" and n: "trial_id h < length ts"
    and ps: "params (ts ! trial_id h) = []"
    and run: "objective env self ds h w = (r, w')"
  shows "\<exists>paras. map fst paras = hp_names
          \<and> db w' = (db w)(key (study h) \<mapsto> ts[trial_id h := (ts ! trial_id h)\<lparr>params := paras\<rparr>])"
proof -
  from paras_to_be_searched_ok[OF db n ps, of env]
  obtain paras w1 where p: "paras_to_be_searched env h w = (Inr paras, w1)"
     and names: "map fst paras = hp_names" and S: "sampled w h ts paras w1" by auto
  from run have "and_then (clone (pipeline self)) (\<lambda>cl.
     and_then (set_params cl paras) (\<lambda>temp_pipeline.
     and_then (cross_validate env temp_pipeline ds 5
                 [(''early_stopping_rounds'', PInt 10),
                  (''pruning_callback'', PruningCallback ''test_mcc'')]
                 (score_function self)) (\<lambda>results.
     and_then (getitem results ''test_mcc'') np_mean))) w1 = (r, w')"
    unfolding objective_def by (subst (asm) and_then_def) (simp add: p)
  from objective_rest_frame[OF this] have "db w' = db w1" by simp
  with S names show ?thesis by (auto simp: sampled_def)
qed

section \<open>Assigning hyperparameters\<close>

lemma set_classifier_params_ok:
  assumes "classifiers w a = Some cl"
  shows "\<exists>w'. set_classifier_params pl a w = (Inr a, w')
           \<and> classifiers w' a = Some (cl\<lparr>xgb_params := dict_update (xgb_params cl) (hyperparameters pl)\<rparr>)"
  using assms by (simp add: set_classifier_params_def XGBClassifier_set_params_def hyperparameters_def)

lemma XGBPipeline_init_ok:
  "\<exists>w'. XGBPipeline_init m v1 v2 v3 v4 v5 v6 v7 v8 c ct w = (Inr (next_id w), w')
      \<and> pipelines w' (next_id w) =
          Some \<lparr>classifier = c, modality = m, n_estimators = v1, max_depth = v2, reg_alpha = v3,
                reg_lambda = v4, min_child_weight = v5, gamma = v6, learning_rate = v7,
                colsample_bytree = v8, classification_type = ct, epoch_length = 30,
                algorithm = ''xgb'', classification = None\<rparr>"
  by (simp add: XGBPipeline_init_def alloc_pipeline_def)

text \<open>
  C3, as stated, fails: nothing is validated. A pipeline is built with the string
  \<open>many\<close> as \<open>n_estimators\<close> and with \<open>max_depth = -3\<close>, \<open>learning_rate = 7\<close> and
  \<open>colsample_bytree = 5\<close>, all outside the search ranges; the constructor succeeds and
  stores them, and \<open>_set_classifier_params\<close> hands them to the classifier without a failure.
\<close>

theorem no_validation_counterexample:
  "(case XGBPipeline_init [''acc''] (PStr ''many'') (PInt (- 3)) (PInt 0) (PInt 0) (PInt 0) (PInt 5)
           (PFloat 7) (PFloat 5) (PRef 0) ''binary'' example_world of
      (r, w') \<Rightarrow>
        r = Inr 2
        \<and> map_option n_estimators (pipelines w' 2) = Some (PStr ''many'')
        \<and> map_option max_depth (pipelines w' 2) = Some (PInt (- 3))
        \<and> (case pipelines w' 2 of
             None \<Rightarrow> False
           | Some pl \<Rightarrow>
               (case set_classifier_params pl 0 w' of
                  (r', w'') \<Rightarrow>
                    r' = Inr 0
                    \<and> map_option (\<lambda>c. map_of (xgb_params c) ''n_estimators'') (classifiers w'' 0)
                        = Some (Some (PStr ''many'')))))"
  by (simp add: XGBPipeline_init_def alloc_pipeline_def example_world_def example_classifier_def
      set_classifier_params_def XGBClassifier_set_params_def)

text \<open>
  C3, amended: assigning hyperparameters validates nothing and does not fail. The
  constructor \<open>XGBPipeline.__init__\<close> succeeds for all values and stores each as it is
  given, and \<open>_set_classifier_params\<close> hands the pipeline's eight values unchanged to the
  classifier, for every classifier that exists.
\<close>

theorem hyperparameters_stored_as_given:
  "(\<exists>w'. XGBPipeline_init m v1 v2 v3 v4 v5 v6 v7 v8 c ct w = (Inr (next_id w), w')
      \<and> pipelines w' (next_id w) =
          Some \<lparr>classifier = c, modality = m, n_estimators = v1, max_depth = v2, reg_alpha = v3,
                reg_lambda = v4, min_child_weight = v5, gamma = v6, learning_rate = v7,
                colsample_bytree = v8, classification_type = ct, epoch_length = 30,
                algorithm = ''xgb'', classification = None\<rparr>)
   \<and> (classifiers w a = Some cl \<longrightarrow>
        (\<exists>w'. set_classifier_params pl a w = (Inr a, w')
           \<and> classifiers w' a = Some (cl\<lparr>xgb_params := dict_update (xgb_params cl)
                [(''n_estimators'', n_estimators pl),
                 (''max_depth'', max_depth pl),
                 (''reg_alpha'', reg_alpha pl),
                 (''reg_lambda'', reg_lambda pl),
                 (''min_child_weight'', min_child_weight pl),
                 (''gamma'', gamma pl),
                 (''learning_rate'', learning_rate pl),
                 (''colsample_bytree'', colsample_bytree pl)]\<rparr>)))"
  using XGBPipeline_init_ok[of m v1 v2 v3 v4 v5 v6 v7 v8 c ct w] set_classifier_params_ok[of w a cl pl]
  by (simp add: hyperparameters_def)

theorem hyperparameters_stored_as_given_witness:
  "classifiers example_world 0 = Some example_classifier
   \<and> (\<exists>w'. set_classifier_params (example_pipeline\<lparr>n_estimators := PStr ''many''\<rparr>) 0 example_world
              = (Inr 0, w')
         \<and> map_option (\<lambda>c. map_of (xgb_params c) ''n_estimators'') (classifiers w' 0)
             = Some (Some (PStr ''many'')))"
proof -
  have h: "classifiers example_world 0 = Some example_classifier"
    by (simp add: example_world_def)
  from hyperparameters_stored_as_given[of "[]" "PInt 0" "PInt 0" "PInt 0" "PInt 0" "PInt 0" "PInt 0"
      "PInt 0" "PInt 0" "PRef 0" "''binary''" example_world 0 example_classifier
      "example_pipeline\<lparr>n_estimators := PStr ''many''\<rparr>"] h
  obtain w' where "set_classifier_params (example_pipeline\<lparr>n_estimators := PStr ''many''\<rparr>) 0 example_world
              = (Inr 0, w')"
    and "classifiers w' 0 = Some (example_classifier\<lparr>xgb_params := dict_update (xgb_params example_classifier)
                [(''n_estimators'', PStr ''many''),
                 (''max_depth'', max_depth example_pipeline),
                 (''reg_alpha'', reg_alpha example_pipeline),
                 (''reg_lambda'', reg_lambda example_pipeline),
                 (''min_child_weight'', min_child_weight example_pipeline),
                 (''gamma'', gamma example_pipeline),
                 (''learning_rate'', learning_rate example_pipeline),
                 (''colsample_bytree'', colsample_bytree example_pipeline)]\<rparr>)"
    by auto
  then show ?thesis using h by (simp add: example_classifier_def)
qed

section \<open>The label column\<close>

lemma self_optimize_fit_fails:
  assumes "pipelines w q = Some pl" "classifier pl = PRef a" "classifiers w a = Some cl"
    and "get_concat_dataset env ds (XGBPipeline.modality pl) = (X, gt)"
    and "map_of gt (target_column pl) = Some y"
    and "xgb_fit env (dict_update (xgb_params cl) (hyperparameters pl)) X y = Inl e"
  shows "fst (self_optimize env q ds kw w) = Inl e"
  using assms
  by (simp add: self_optimize_alt sklearn_clone_def alloc_classifier_def
        XGBClassifier_set_params_def getitem_def fit_def ret_def and_then_def)

text \<open>
  C4: \<open>self_optimize\<close> reads the label column \<open>sleep\<close> when the classification type is
  \<open>binary\<close> and the column named by the classification type otherwise. When the label
  table has no such column the call fails with the table's \<open>KeyError\<close> for that column
  (the failure the specification calls \<open>UnknownTargetColumn\<close>); when it has, the
  classifier is trained on the features of the whole dataset and on that column, and the
  result of the training is the pipeline's new classifier.
\<close>

theorem self_optimize_label_column:
  assumes "pipelines w self = Some pl" "classifier pl = PRef a" "classifiers w a = Some cl"
    and "get_concat_dataset env dataset (XGBPipeline.modality pl) = (features, ground_truth)"
    and "col = (if XGBPipeline.classification_type pl = ''binary'' then ''sleep''
                else XGBPipeline.classification_type pl)"
  shows "(map_of ground_truth col = None \<longrightarrow>
            fst (self_optimize env self dataset kw w) = Inl (KeyError col))
       \<and> (\<forall>y b. map_of ground_truth col = Some y \<longrightarrow>
            xgb_fit env (dict_update (xgb_params cl) (hyperparameters pl)) features y = Inr b \<longrightarrow>
            (\<exists>w'. self_optimize env self dataset kw w = (Inr self, w')
               \<and> pipelines w' self = Some (pl\<lparr>classifier := PRef (next_id w)\<rparr>)
               \<and> classifiers w' (next_id w) =
                   Some (cl\<lparr>xgb_params := dict_update (xgb_params cl) (hyperparameters pl),
                            booster := Some b\<rparr>)))
       \<and> (\<forall>y e. map_of ground_truth col = Some y \<longrightarrow>
            xgb_fit env (dict_update (xgb_params cl) (hyperparameters pl)) features y = Inl e \<longrightarrow>
            fst (self_optimize env self dataset kw w) = Inl e)"
proof -
  have col: "col = target_column pl" using assms(5) by (simp add: target_column_def)
  have "map_of ground_truth col = None \<Longrightarrow>
          fst (self_optimize env self dataset kw w) = Inl (KeyError col)"
    using self_optimize_missing[OF assms(1-3), of env dataset kw] assms(4) col by simp
  moreover have "map_of ground_truth col = Some y \<Longrightarrow>
      xgb_fit env (dict_update (xgb_params cl) (hyperparameters pl)) features y = Inr b \<Longrightarrow>
      \<exists>w'. self_optimize env self dataset kw w = (Inr self, w')
         \<and> pipelines w' self = Some (pl\<lparr>classifier := PRef (next_id w)\<rparr>)
         \<and> classifiers w' (next_id w) =
             Some (cl\<lparr>xgb_params := dict_update (xgb_params cl) (hyperparameters pl),
                      booster := Some b\<rparr>)" for y b
    using self_optimize_ok[OF assms(1-4), of y b kw] col by auto
  moreover have "map_of ground_truth col = Some y \<Longrightarrow>
      xgb_fit env (dict_update (xgb_params cl) (hyperparameters pl)) features y = Inl e \<Longrightarrow>
      fst (self_optimize env self dataset kw w) = Inl e" for y e
    using self_optimize_fit_fails[OF assms(1-4), of y e kw] col by simp
  ultimately show ?thesis by blast
qed

theorem self_optimize_label_column_witness:
  "pipelines example_world 1 = Some example_pipeline
   \<and> classifier example_pipeline = PRef 0
   \<and> classifiers example_world 0 = Some example_classifier
   \<and> fst (self_optimize example_env 1 example_dataset [] example_world) = Inr 1
   \<and> fst (self_optimize example_env 1 example_dataset []
            (example_world\<lparr>pipelines := [1 \<mapsto> example_pipeline\<lparr>XGBPipeline.classification_type := ''3stage''\<rparr>]\<rparr>))
       = Inl (KeyError ''3stage'')"
proof -
  have h1: "pipelines example_world 1 = Some example_pipeline"
    and h2: "classifier example_pipeline = PRef 0"
    and h3: "classifiers example_world 0 = Some example_classifier"
    by (simp_all add: example_world_def example_pipeline_def)
  let ?gt = "[(''sleep'', map (\<lambda>i. int (i mod 2)) example_dataset),
              (''5stage'', map (\<lambda>i. int (i mod 5)) example_dataset)]"
  have h4: "get_concat_dataset example_env example_dataset (XGBPipeline.modality example_pipeline)
              = (map (\<lambda>i. [real i]) example_dataset, ?gt)"
    by (simp add: example_env_def)
  have h5: "''sleep'' = (if XGBPipeline.classification_type example_pipeline = ''binary'' then ''sleep''
                else XGBPipeline.classification_type example_pipeline)"
    by (simp add: example_pipeline_def)
  have fit: "xgb_fit example_env ps (map (\<lambda>i. [real i]) example_dataset) y = Inr 10" for ps y
    by (simp add: example_env_def example_dataset_def)
  from self_optimize_label_column[OF h1 h2 h3 h4 h5, of "[]"] fit
  have a: "fst (self_optimize example_env 1 example_dataset [] example_world) = Inr 1"
    by fastforce
  let ?pl = "example_pipeline\<lparr>XGBPipeline.classification_type := ''3stage''\<rparr>"
  let ?w = "example_world\<lparr>pipelines := [1 \<mapsto> ?pl]\<rparr>"
  have g1: "pipelines ?w 1 = Some ?pl" and g2: "classifier ?pl = PRef 0"
    and g3: "classifiers ?w 0 = Some example_classifier"
    by (simp_all add: example_world_def example_pipeline_def)
  have g4: "get_concat_dataset example_env example_dataset (XGBPipeline.modality ?pl)
              = (map (\<lambda>i. [real i]) example_dataset, ?gt)"
    by (simp add: example_env_def)
  have g5: "''3stage'' = (if XGBPipeline.classification_type ?pl = ''binary'' then ''sleep''
                else XGBPipeline.classification_type ?pl)"
    by simp
  from self_optimize_label_column[OF g1 g2 g3 g4 g5, of "[]"]
  have b: "fst (self_optimize example_env 1 example_dataset [] ?w) = Inl (KeyError ''3stage'')"
    by simp
  from h1 h2 h3 a b show ?thesis by simp
qed

section \<open>The best trial\<close>

text \<open>
  C7: in a study with at least one completed trial, the selection of the best trial
  for the direction \<open>Maximize\<close> (the direction \<open>optimize\<close> creates its study with)
  succeeds and returns a trial of the study that is completed, hence neither pruned nor
  failed nor running, and whose objective is at least that of every completed trial; the
  parameters \<open>optimize\<close> takes from the study are the parameters of that trial.
\<close>

theorem best_trial_completed_maximal:
  assumes "t0 \<in> set ts" "state t0 = COMPLETE v0"
  shows "\<exists>b v. best_trial Maximize ts = Inr b \<and> b \<in> set ts \<and> state b = COMPLETE v
           \<and> (\<forall>t\<in>set ts. \<forall>u. state t = COMPLETE u \<longrightarrow> u \<le> v)
           \<and> state b \<noteq> PRUNED \<and> state b \<noteq> FAIL \<and> state b \<noteq> RUNNING
           \<and> (\<forall>st w. db w (key st) = Some ts \<longrightarrow> direction st = Maximize \<longrightarrow>
                 best_params st (w :: 'b world) = (Inr (params b), w))"
proof -
  from best_trial_maximal[OF assms] obtain b v where
    b: "best_trial Maximize ts = Inr b" "b \<in> set ts" "state b = COMPLETE v"
       "\<forall>t\<in>set ts. \<forall>u. state t = COMPLETE u \<longrightarrow> u \<le> v"
    by blast
  have "best_params st w = (Inr (params b), w)"
    if "db w (key st) = Some ts" "direction st = Maximize" for st and w :: "'b world"
    using that b(1) by (simp add: best_params_def)
  with b show ?thesis by auto
qed

theorem best_trial_completed_maximal_witness:
  "\<lparr>number = 0, params = [], state = COMPLETE (8 / 10)\<rparr>
     \<in> set [\<lparr>number = 0, params = [], state = COMPLETE (8 / 10)\<rparr>, \<lparr>number = 1, params = [], state = PRUNED\<rparr>]
   \<and> best_trial Maximize
       [\<lparr>number = 0, params = [], state = COMPLETE (8 / 10)\<rparr>, \<lparr>number = 1, params = [], state = PRUNED\<rparr>]
     = Inr \<lparr>number = 0, params = [], state = COMPLETE (8 / 10)\<rparr>"
proof -
  let ?c = "\<lparr>number = 0, params = [], state = COMPLETE (8 / 10)\<rparr>"
  let ?p = "\<lparr>number = 1, params = [], state = PRUNED\<rparr>"
  have h1: "?c \<in> set [?c, ?p]" by simp
  have h2: "state ?c = COMPLETE (8 / 10)" by simp
  from best_trial_completed_maximal[OF h1 h2]
  obtain b v where "best_trial Maximize [?c, ?p] = Inr b" "b \<in> set [?c, ?p]" "state b = COMPLETE v"
    by blast
  then have "best_trial Maximize [?c, ?p] = Inr ?c" by auto
  with h1 show ?thesis by simp
qed

section \<open>The search ranges\<close>

text \<open>
  C9: with a sampler that proposes, for every non-empty range, a value of the range,
  the parameters a trial samples are the eight named ones, in the source's order, with
  \<open>n_estimators\<close> in [200, 400], \<open>max_depth\<close> in [5, 25], \<open>reg_alpha\<close>,
  \<open>reg_lambda\<close> and \<open>min_child_weight\<close> in [0, 25] and \<open>gamma\<close> in [5, 25], all
  integers, and the floats \<open>learning_rate\<close> in [0.01, 0.1] and \<open>colsample_bytree\<close> in
  [0.1, 1].
\<close>

theorem sampled_parameters_in_range:
  assumes ints: "\<And>s ts n name low high. low \<le> high \<Longrightarrow>
            contains (IntDistribution low high) (TPESampler env s ts n name (IntDistribution low high))"
    and floats: "\<And>s ts n name low high. low \<le> high \<Longrightarrow>
            contains (FloatDistribution low high) (TPESampler env s ts n name (FloatDistribution low high))"
    and run: "paras_to_be_searched env trial w = (Inr paras, w')"
  shows "\<exists>n_estimators' max_depth' reg_alpha' reg_lambda' min_child_weight' gamma' learning_rate'
            colsample_bytree'.
     paras = [(''n_estimators'', PInt n_estimators'), (''max_depth'', PInt max_depth'),
              (''reg_alpha'', PInt reg_alpha'), (''reg_lambda'', PInt reg_lambda'),
              (''min_child_weight'', PInt min_child_weight'), (''gamma'', PInt gamma'),
              (''learning_rate'', PFloat learning_rate'),
              (''colsample_bytree'', PFloat colsample_bytree')]
     \<and> 200 \<le> n_estimators' \<and> n_estimators' \<le> 400
     \<and> 5 \<le> max_depth' \<and> max_depth' \<le> 25
     \<and> 0 \<le> reg_alpha' \<and> reg_alpha' \<le> 25
     \<and> 0 \<le> reg_lambda' \<and> reg_lambda' \<le> 25
     \<and> 0 \<le> min_child_weight' \<and> min_child_weight' \<le> 25
     \<and> 5 \<le> gamma' \<and> gamma' \<le> 25
     \<and> 1 / 100 \<le> learning_rate' \<and> learning_rate' \<le> 1 / 10
     \<and> 1 / 10 \<le> colsample_bytree' \<and> colsample_bytree' \<le> 1"
proof -
  have I: "low \<le> high \<Longrightarrow> \<exists>v. TPESampler env s ts n name (IntDistribution low high) = PInt v
             \<and> low \<le> v \<and> v \<le> high" for s ts n name low high
    using ints[of low high s ts n name]
    by (cases "TPESampler env s ts n name (IntDistribution low high)") auto
  have F: "low \<le> high \<Longrightarrow> \<exists>v. TPESampler env s ts n name (FloatDistribution low high) = PFloat v
             \<and> low \<le> v \<and> v \<le> high" for s ts n name low high
    using floats[of low high s ts n name]
    by (cases "TPESampler env s ts n name (FloatDistribution low high)") auto
  from paras_to_be_searched_Inr[OF run] obtain t1 t2 t3 t4 t5 t6 t7 t8 where
    p: "paras = [(''n_estimators'', TPESampler env (sampler_seed (study trial)) t1 (trial_id trial) ''n_estimators'' (IntDistribution 200 400)),
      (''max_depth'', TPESampler env (sampler_seed (study trial)) t2 (trial_id trial) ''max_depth'' (IntDistribution 5 25)),
      (''reg_alpha'', TPESampler env (sampler_seed (study trial)) t3 (trial_id trial) ''reg_alpha'' (IntDistribution 0 25)),
      (''reg_lambda'', TPESampler env (sampler_seed (study trial)) t4 (trial_id trial) ''reg_lambda'' (IntDistribution 0 25)),
      (''min_child_weight'', TPESampler env (sampler_seed (study trial)) t5 (trial_id trial) ''min_child_weight'' (IntDistribution 0 25)),
      (''gamma'', TPESampler env (sampler_seed (study trial)) t6 (trial_id trial) ''gamma'' (IntDistribution 5 25)),
      (''learning_rate'', TPESampler env (sampler_seed (study trial)) t7 (trial_id trial) ''learning_rate'' (FloatDistribution (1 / 100) (1 / 10))),
      (''colsample_bytree'', TPESampler env (sampler_seed (study trial)) t8 (trial_id trial) ''colsample_bytree'' (FloatDistribution (1 / 10) 1))]"
    by blast
  from I[of 200 400 "sampler_seed (study trial)" t1 "trial_id trial" "''n_estimators''"]
  obtain v1 where v1: "TPESampler env (sampler_seed (study trial)) t1 (trial_id trial) ''n_estimators'' (IntDistribution 200 400) = PInt v1"
    "200 \<le> v1" "v1 \<le> 400" by auto
  from I[of 5 25 "sampler_seed (study trial)" t2 "trial_id trial" "''max_depth''"]
  obtain v2 where v2: "TPESampler env (sampler_seed (study trial)) t2 (trial_id trial) ''max_depth'' (IntDistribution 5 25) = PInt v2"
    "5 \<le> v2" "v2 \<le> 25" by auto
  from I[of 0 25 "sampler_seed (study trial)" t3 "trial_id trial" "''reg_alpha''"]
  obtain v3 where v3: "TPESampler env (sampler_seed (study trial)) t3 (trial_id trial) ''reg_alpha'' (IntDistribution 0 25) = PInt v3"
    "0 \<le> v3" "v3 \<le> 25" by auto
  from I[of 0 25 "sampler_seed (study trial)" t4 "trial_id trial" "''reg_lambda''"]
  obtain v4 where v4: "TPESampler env (sampler_seed (study trial)) t4 (trial_id trial) ''reg_lambda'' (IntDistribution 0 25) = PInt v4"
    "0 \<le> v4" "v4 \<le> 25" by auto
  from I[of 0 25 "sampler_seed (study trial)" t5 "trial_id trial" "''min_child_weight''"]
  obtain v5 where v5: "TPESampler env (sampler_seed (study trial)) t5 (trial_id trial) ''min_child_weight'' (IntDistribution 0 25) = PInt v5"
    "0 \<le> v5" "v5 \<le> 25" by auto
  from I[of 5 25 "sampler_seed (study trial)" t6 "trial_id trial" "''gamma''"]
  obtain v6 where v6: "TPESampler env (sampler_seed (study trial)) t6 (trial_id trial) ''gamma'' (IntDistribution 5 25) = PInt v6"
    "5 \<le> v6" "v6 \<le> 25" by auto
  from F[of "1 / 100" "1 / 10" "sampler_seed (study trial)" t7 "trial_id trial" "''learning_rate''"]
  obtain v7 where v7: "TPESampler env (sampler_seed (study trial)) t7 (trial_id trial) ''learning_rate'' (FloatDistribution (1 / 100) (1 / 10)) = PFloat v7"
    "1 / 100 \<le> v7" "v7 \<le> 1 / 10" by auto
  from F[of "1 / 10" 1 "sampler_seed (study trial)" t8 "trial_id trial" "''colsample_bytree''"]
  obtain v8 where v8: "TPESampler env (sampler_seed (study trial)) t8 (trial_id trial) ''colsample_bytree'' (FloatDistribution (1 / 10) 1) = PFloat v8"
    "1 / 10 \<le> v8" "v8 \<le> 1" by auto
  show ?thesis
    unfolding p v1(1) v2(1) v3(1) v4(1) v5(1) v6(1) v7(1) v8(1)
    using v1(2,3) v2(2,3) v3(2,3) v4(2,3) v5(2,3) v6(2,3) v7(2,3) v8(2,3) by blast
qed

theorem sampled_parameters_in_range_witness:
  "\<exists>paras w'. paras_to_be_searched example_env example_trial example_running = (Inr paras, w')
     \<and> (\<exists>v. map_of paras ''n_estimators'' = Some (PInt v) \<and> 200 \<le> v \<and> v \<le> 400)
     \<and> (\<exists>v. map_of paras ''colsample_bytree'' = Some (PFloat v) \<and> 1 / 10 \<le> v \<and> v \<le> 1)"
proof -
  have ints: "contains (IntDistribution low high)
        (TPESampler example_env s ts n name (IntDistribution low high))" if "low \<le> high"
    for s ts n name low high
    using that by (simp add: example_env_def)
  have floats: "contains (FloatDistribution low high)
        (TPESampler example_env s ts n name (FloatDistribution low high))" if "low \<le> high"
    for s ts n name low high
    using that by (simp add: example_env_def)
  have "\<exists>paras w'. paras_to_be_searched example_env example_trial example_running = (Inr paras, w')"
    using paras_to_be_searched_ok[of example_running example_trial
        "[\<lparr>number = 0, params = [], state = RUNNING\<rparr>]" example_env]
    by (auto simp: example_running_def example_trial_def example_study_def)
  then obtain paras w' where
    run: "paras_to_be_searched example_env example_trial example_running = (Inr paras, w')"
    by blast
  from sampled_parameters_in_range[of example_env, OF ints floats run]
  show ?thesis using run by auto
qed

section \<open>The study log\<close>

lemma update_trial_ok:
  assumes "db w k = Some ts" "n < length ts"
  shows "update_trial k n f w = (Inr (), w\<lparr>db := (db w)(k \<mapsto> ts[n := f (ts ! n)])\<rparr>)"
  using assms by (simp add: update_trial_def)

lemma run_trial_trace:
  assumes db: "db w (key st) = Some ts"
    and run: "run_trial st (objective env self ds) w = (r, w')"
  shows "r = Inr () \<and> frame {} {} w w'
     \<and> (\<exists>paras ro w0 w1. map fst paras = hp_names
           \<and> pipelines w0 = pipelines w \<and> classifiers w0 = classifiers w \<and> next_id w0 = next_id w
           \<and> db w0 (key st) = Some (ts @ [\<lparr>number = length ts, params = [], state = RUNNING\<rparr>])
           \<and> objective env self ds \<lparr>study = st, trial_id = length ts\<rparr> w0 = (ro, w1)
           \<and> db w' = (db w)(key st \<mapsto> ts @ [\<lparr>number = length ts, params = paras, state = outcome ro\<rparr>]))"
proof -
  let ?t0 = "\<lparr>number = length ts, params = [], state = RUNNING\<rparr>"
  let ?h = "\<lparr>study = st, trial_id = length ts\<rparr>"
  let ?w0 = "w\<lparr>db := (db w)(key st \<mapsto> ts @ [?t0])\<rparr>"
  obtain ro w1 where obj: "objective env self ds ?h ?w0 = (ro, w1)"
    by (cases "objective env self ds ?h ?w0")
  have db0: "db ?w0 (key (study ?h)) = Some (ts @ [?t0])" by simp
  have n0: "trial_id ?h < length (ts @ [?t0])" by simp
  have p0: "params ((ts @ [?t0]) ! trial_id ?h) = []" by simp
  from objective_trace[OF db0 n0 p0 obj] obtain paras where
    names: "map fst paras = hp_names"
    and db1: "db w1 = (db w)(key st \<mapsto> ts @ [\<lparr>number = length ts, params = paras, state = RUNNING\<rparr>])"
    by auto
  from objective_frame[OF obj] have f1: "frame {} {} w w1" by (simp add: frame_def)
  from run db obj have "update_trial (key st) (length ts) (\<lambda>t. t\<lparr>state := outcome ro\<rparr>) w1 = (r, w')"
    by (simp add: run_trial_def)
  moreover have "update_trial (key st) (length ts) (\<lambda>t. t\<lparr>state := outcome ro\<rparr>) w1
        = (Inr (), w1\<lparr>db := (db w1)(key st \<mapsto>
             (ts @ [\<lparr>number = length ts, params = paras, state = RUNNING\<rparr>])[length ts :=
                (\<lambda>t. t\<lparr>state := outcome ro\<rparr>) ((ts @ [\<lparr>number = length ts, params = paras, state = RUNNING\<rparr>]) ! length ts)])\<rparr>)"
    by (rule update_trial_ok) (simp_all add: db1)
  ultimately have r: "r = Inr ()"
    and w': "w' = w1\<lparr>db := (db w)(key st \<mapsto> ts @ [\<lparr>number = length ts, params = paras, state = outcome ro\<rparr>])\<rparr>"
    by (simp_all add: db1)
  from f1 w' have "frame {} {} w w'" by (simp add: frame_def)
  moreover have "db w' = (db w)(key st \<mapsto> ts @ [\<lparr>number = length ts, params = paras, state = outcome ro\<rparr>])"
    using w' by simp
  ultimately show ?thesis using r names obj by (intro conjI exI[of _ paras] exI[of _ ro] exI[of _ ?w0] exI[of _ w1]) simp_all
qed

lemma create_study_run:
  "create_study d name s sto w = (r, w') \<Longrightarrow>
     r = Inr \<lparr>key = (sto, name), direction = d, sampler_seed = s\<rparr>
     \<and> db w' = (db w)((sto, name) \<mapsto> study_log w (sto, name))
     \<and> pipelines w' = pipelines w \<and> classifiers w' = classifiers w \<and> next_id w' = next_id w"
  by (auto simp: create_study_def study_log_def split: option.splits)

lemma XGBClassifier_frame:
  "(if b then XGBClassifier_binary best else XGBClassifier_init best) w = (r, w') \<Longrightarrow>
     frame {} {} w w' \<and> db w' = db w"
  by (auto simp: XGBClassifier_binary_def XGBClassifier_init_def alloc_classifier_def raise_def frame_def
      split: if_splits)

lemma best_params_run: "best_params st w = (r, w') \<Longrightarrow> w' = w"
  by (auto simp: best_params_def split: option.splits sum.splits)

lemma finalize_frame:
  assumes "and_then (best_params st) (\<lambda>best_parameters.
     and_then (if b then XGBClassifier_binary best_parameters
               else XGBClassifier_init best_parameters) (\<lambda>c.
     and_then (clone p) (\<lambda>cl.
     and_then (set_params cl (dict_set ''classifier'' (PRef c) best_parameters)) (\<lambda>q.
     and_then (Optimize_optimize env q ds kw) (\<lambda>opt.
     ret (self\<lparr>optimized_pipeline := Some opt\<rparr>)))))) w = (r, w')"
  shows "frame {} {} w w' \<and> db w' = db w"
  using assms
proof (cases rule: and_then_cases)
  case (fail e)
  from best_params_run[OF fail(1)] show ?thesis by (simp add: frame_refl)
next
  case (ok best w1)
  from best_params_run[OF ok(1)] have w1: "w1 = w" .
  from ok(2) show ?thesis unfolding w1
  proof (cases rule: and_then_cases)
    case (fail e)
    then show ?thesis by (simp add: XGBClassifier_frame)
  next
    case (ok c w2)
    note f2 = XGBClassifier_frame[OF ok(1)]
    from ok(2) show ?thesis
    proof (cases rule: and_then_cases)
      case (fail e)
      from clone_frame[OF fail(1)] f2 show ?thesis by (auto intro: frame_trans)
    next
      case (ok cl w3)
      from clone_frame[OF ok(1)] f2 have f3: "frame {} {} w w3 \<and> db w3 = db w"
        by (auto intro: frame_trans)
      from clone_fresh[OF ok(1)] f2 have fresh: "next_id w \<le> cl" by (simp add: frame_def)
      from ok(2) show ?thesis
      proof (cases rule: and_then_cases)
        case (fail e)
        from set_params_frame[OF fail(1)] f3 fresh show ?thesis by (auto intro: frame_trans)
      next
        case (ok q w4)
        from set_params_frame[OF ok(1)] f3 fresh have f4: "frame {} {} w w4 \<and> db w4 = db w"
          by (auto intro: frame_trans)
        from ok(2) show ?thesis
        proof (cases rule: and_then_cases)
          case (fail e)
          from Optimize_optimize_frame[OF fail(1)] f4 show ?thesis by (auto intro: frame_trans)
        next
          case (ok opt w5)
          from ok(2) have "w' = w5" by (simp add: ret_def)
          with Optimize_optimize_frame[OF ok(1)] f4 show ?thesis by (auto intro: frame_trans)
        qed
      qed
    qed
  qed
qed

lemma optimize_trace:
  assumes "optimize env self ds kw w = (r, w')"
  shows "frame {} {} w w'
     \<and> (\<exists>t. db w' = (db w)(study_key env self \<mapsto> study_log w (study_key env self) @ [t])
           \<and> number t = length (study_log w (study_key env self))
           \<and> map fst (params t) = hp_names)"
  using assms unfolding optimize_def
proof (cases rule: and_then_cases)
  case (fail e)
  from create_study_run[OF fail(1)] show ?thesis by simp
next
  case (ok st w1)
  let ?k = "study_key env self"
  from create_study_run[OF ok(1)] have
    st: "st = \<lparr>key = ?k, direction = Maximize, sampler_seed = seed self\<rparr>"
    and db1: "db w1 = (db w)(?k \<mapsto> study_log w ?k)"
    and o1: "pipelines w1 = pipelines w" "classifiers w1 = classifiers w" "next_id w1 = next_id w"
    by (simp_all add: study_key_def)
  have k: "key st = ?k" by (simp add: st)
  from ok(2) show ?thesis
  proof (cases rule: and_then_cases)
    case (fail e)
    then have "and_then (run_trial st (objective env self ds)) (\<lambda>_. ret ()) w1 = (Inl e, w')"
      by simp
    then have "run_trial st (objective env self ds) w1 = (Inl e, w')"
      by (auto elim!: and_then_cases simp: ret_def)
    from run_trial_trace[OF _ this, of "study_log w ?k"] db1 k show ?thesis by simp
  next
    case (ok u w2)
    then have "and_then (run_trial st (objective env self ds)) (\<lambda>_. ret ()) w1 = (Inr u, w2)"
      by simp
    then obtain u' where rt: "run_trial st (objective env self ds) w1 = (Inr u', w2)"
      by (auto elim!: and_then_cases simp: ret_def)
    from run_trial_trace[OF _ rt, of "study_log w ?k"] db1 k
    obtain paras ro where f2: "frame {} {} w1 w2" and names: "map fst paras = hp_names"
      and db2: "db w2 = (db w)(?k \<mapsto> study_log w ?k @
                  [\<lparr>number = length (study_log w ?k), params = paras, state = outcome ro\<rparr>])"
      by auto
    from finalize_frame[OF ok(2)] have f3: "frame {} {} w2 w'" and db3: "db w' = db w2" by simp_all
    from f2 o1 have "frame {} {} w w2" by (simp add: frame_def)
    with f3 have "frame {} {} w w'" by (auto intro: frame_trans)
    moreover from db2 db3 names have "\<exists>t. db w' = (db w)(?k \<mapsto> study_log w ?k @ [t])
           \<and> number t = length (study_log w ?k) \<and> map fst (params t) = hp_names"
      by (intro exI[of _ "\<lparr>number = length (study_log w ?k), params = paras, state = outcome ro\<rparr>"]) simp
    ultimately show ?thesis by simp
  qed
qed

text \<open>
  C1, amended: one invocation of \<open>XGBOptuna.optimize\<close> runs exactly one new trial,
  whatever trial count is configured: the call of \<open>study.optimize\<close> passes the constant
  \<open>n_trials=1\<close>. Whether the call succeeds or fails, the persisted log of the study is
  the log from before with exactly one trial record appended, whose number is the next
  free one and whose parameters are one sampled set of the eight hyperparameters.
\<close>

theorem optimize_runs_one_trial:
  "\<exists>t. study_log (snd (optimize env self dataset optimize_params w)) (study_key env self)
          = study_log w (study_key env self) @ [t]
      \<and> number t = length (study_log w (study_key env self))
      \<and> map fst (params t) = hp_names"
proof -
  obtain r w' where run: "optimize env self dataset optimize_params w = (r, w')"
    by (cases "optimize env self dataset optimize_params w")
  from optimize_trace[OF run] obtain t where
    "db w' = (db w)(study_key env self \<mapsto> study_log w (study_key env self) @ [t])"
    "number t = length (study_log w (study_key env self))" "map fst (params t) = hp_names"
    by blast
  then show ?thesis using run by (auto simp: study_log_def)
qed

theorem optimize_runs_one_trial_witness:
  "\<exists>t. study_log (snd (optimize example_env example_optuna example_dataset [] example_world))
          (study_key example_env example_optuna) = [t] \<and> number t = 0"
proof -
  have e: "study_log example_world (study_key example_env example_optuna) = []"
    by (simp add: study_log_def example_world_def)
  from optimize_runs_one_trial[of example_env example_optuna example_dataset "[]" example_world]
  show ?thesis unfolding e by auto
qed

text \<open>
  C1, as stated, fails: a search configured for three trials (the count is handed to
  \<open>optimize\<close> among its \<open>optimize_params\<close>, the only configuration it takes) on a
  store without a study leaves one trial record, not three.
\<close>

theorem configured_trial_count_counterexample:
  "length (study_log example_world (study_key example_env example_optuna)) = 0
   \<and> length (study_log (snd (optimize example_env example_optuna example_dataset
                [(''n_trials'', PInt 3)] example_world)) (study_key example_env example_optuna)) = 1"
proof -
  obtain r w' where run: "optimize example_env example_optuna example_dataset
                [(''n_trials'', PInt 3)] example_world = (r, w')"
    by (cases "optimize example_env example_optuna example_dataset [(''n_trials'', PInt 3)] example_world")
  have e: "study_log example_world (study_key example_env example_optuna) = []"
    by (simp add: study_log_def example_world_def)
  from optimize_trace[OF run] e obtain t where
    "db w' = (db example_world)(study_key example_env example_optuna \<mapsto> [t])"
    by auto
  then show ?thesis using run e by (simp add: study_log_def)
qed

section \<open>Isolation of clones\<close>

lemma run_depends:
  assumes "pipelines v p = pipelines w p" "pipelines w p = Some pl" "classifier pl = PRef c"
    "classifiers v c = classifiers w c"
  shows "fst (run env p dp v) = fst (run env p dp w)
       \<and> pipelines (snd (run env p dp v)) p = pipelines (snd (run env p dp w)) p"
  using assms
  by (auto simp: run_def predict_def and_then_def split: option.splits)

text \<open>
  C8: evaluating a trial works on clones only. Whatever \<open>objective\<close> returns, every
  pipeline and every classifier that existed before the call, the template and its
  classifier among them, is unchanged afterwards; so it is after a cross-validation, with
  its fold-level clones and their fits, and after a clone. Fitting a pipeline with
  \<open>self_optimize\<close> changes no classifier that existed and no other pipeline, so the
  predictions of every other pipeline are the same before and after the fit.
\<close>

theorem clone_isolation:
  "(objective env self dataset trial w = (r, w') \<and> a < next_id w \<longrightarrow>
       pipelines w' a = pipelines w a \<and> classifiers w' a = classifiers w a)
   \<and> (cross_validate env p' dataset cv kw sc w = (r1, w1) \<and> a < next_id w \<longrightarrow>
       pipelines w1 a = pipelines w a \<and> classifiers w1 a = classifiers w a)
   \<and> (clone p' w = (r3, w3) \<and> a < next_id w \<longrightarrow>
       pipelines w3 a = pipelines w a \<and> classifiers w3 a = classifiers w a)
   \<and> (self_optimize env q dataset kw w = (r2, w2) \<and> a < next_id w \<longrightarrow>
       classifiers w2 a = classifiers w a \<and> (a \<noteq> q \<longrightarrow> pipelines w2 a = pipelines w a))
   \<and> (self_optimize env q dataset kw w = (r2, w2) \<and> p \<noteq> q \<and> p < next_id w
        \<and> pipelines w p = Some pl \<and> classifier pl = PRef c \<and> c < next_id w \<longrightarrow>
       fst (run env p datapoint w2) = fst (run env p datapoint w)
       \<and> pipelines (snd (run env p datapoint w2)) p = pipelines (snd (run env p datapoint w)) p)"
proof -
  have A: "pipelines w' a = pipelines w a \<and> classifiers w' a = classifiers w a"
    if "objective env self dataset trial w = (r, w')" "a < next_id w"
    using objective_frame[OF that(1)] that(2) by (simp add: frame_def)
  have B: "pipelines w1 a = pipelines w a \<and> classifiers w1 a = classifiers w a"
    if "cross_validate env p' dataset cv kw sc w = (r1, w1)" "a < next_id w"
    using cross_validate_frame[OF that(1)] that(2) by (simp add: frame_def)
  have C: "pipelines w3 a = pipelines w a \<and> classifiers w3 a = classifiers w a"
    if "clone p' w = (r3, w3)" "a < next_id w"
    using clone_frame[OF that(1)] that(2) by (simp add: frame_def)
  have D: "classifiers w2 a = classifiers w a \<and> (a \<noteq> q \<longrightarrow> pipelines w2 a = pipelines w a)"
    if "self_optimize env q dataset kw w = (r2, w2)" "a < next_id w"
    using self_optimize_frame[OF that(1)] that(2) by (simp add: frame_def)
  have E: "fst (run env p datapoint w2) = fst (run env p datapoint w)
       \<and> pipelines (snd (run env p datapoint w2)) p = pipelines (snd (run env p datapoint w)) p"
    if "self_optimize env q dataset kw w = (r2, w2)" "p \<noteq> q" "p < next_id w"
       "pipelines w p = Some pl" "classifier pl = PRef c" "c < next_id w"
  proof -
    from self_optimize_frame[OF that(1)] that(2,3,6)
    have eq: "pipelines w2 p = pipelines w p" "classifiers w2 c = classifiers w c"
      by (simp_all add: frame_def)
    show ?thesis by (rule run_depends[OF eq(1) that(4,5) eq(2)])
  qed
  from A B C D E show ?thesis by blast
qed

theorem clone_isolation_witness:
  "\<exists>r w'. objective example_env example_optuna example_dataset example_trial example_running = (r, w')
      \<and> pipelines w' 1 = Some example_pipeline \<and> classifiers w' 0 = Some example_classifier"
proof -
  obtain r w' where run:
    "objective example_env example_optuna example_dataset example_trial example_running = (r, w')"
    by (cases "objective example_env example_optuna example_dataset example_trial example_running")
  have n: "(1::nat) < next_id example_running" "(0::nat) < next_id example_running"
    by (simp_all add: example_running_def example_world_def)
  from clone_isolation[where env = example_env and self = example_optuna and dataset = example_dataset
      and trial = example_trial and w = example_running and r = r and w' = w' and a = 1] run n(1)
  have "pipelines w' 1 = pipelines example_running 1" by blast
  moreover
  from clone_isolation[where env = example_env and self = example_optuna and dataset = example_dataset
      and trial = example_trial and w = example_running and r = r and w' = w' and a = 0] run n(2)
  have "classifiers w' 0 = classifiers example_running 0" by blast
  ultimately show ?thesis using run by (simp add: example_running_def example_world_def)
qed


section \<open>The objective value\<close>

lemma and_then_InrE:
  assumes "and_then f g w = (Inr y, w'')"
  obtains x w' where "f w = (Inr x, w')" "g x w' = (Inr y, w'')"
  using assms by (cases rule: and_then_cases) auto

lemma cv_folds_length:
  "cv_folds env p folds kw sc w = (Inr scores, w') \<Longrightarrow> length scores = length folds"
proof (induction folds arbitrary: w scores w')
  case Nil
  then show ?case by (simp add: ret_def)
next
  case (Cons f folds)
  obtain train test where f: "f = (train, test)" by (cases f)
  from Cons.prems[unfolded f cv_folds.simps]
  obtain q w1 where "and_then (score sc q test) (\<lambda>s.
     and_then (cv_folds env p folds kw sc) (\<lambda>rest. ret (s # rest))) w1 = (Inr scores, w')"
    by (rule and_then_InrE)
  then obtain s w2 where "and_then (cv_folds env p folds kw sc) (\<lambda>rest. ret (s # rest)) w2 = (Inr scores, w')"
    by (rule and_then_InrE)
  then obtain rest w3 where r: "cv_folds env p folds kw sc w2 = (Inr rest, w3)"
    and "ret (s # rest) w3 = (Inr scores, w')"
    by (rule and_then_InrE)
  then have "scores = s # rest" by (simp add: ret_def)
  with Cons.IH[OF r] show ?case by simp
qed

lemma map_of_test_names:
  "map_of (map (\<lambda>name. (''test_'' @ name, f name)) names) (''test_'' @ n)
     = (if n \<in> set names then Some (f n) else None)"
  by (induction names) auto

lemma cv_results_test:
  assumes "map_of (cv_results scores) (''test_'' @ n) = Some xs"
  shows "xs = List.map_filter (\<lambda>s. map_of s n) scores"
proof (cases scores)
  case Nil
  with assms show ?thesis by (simp add: cv_results_def)
next
  case (Cons s rest)
  have "cv_results scores =
      map (\<lambda>name. (''test_'' @ name, List.map_filter (\<lambda>s'. map_of s' name) scores)) (map fst s)"
    unfolding Cons cv_results_def by (simp only: list.case)
  with assms have "(if n \<in> set (map fst s) then Some (List.map_filter (\<lambda>s'. map_of s' n) scores) else None)
      = Some xs"
    by (simp only: map_of_test_names)
  then show ?thesis by (simp split: if_splits)
qed

lemma getitem_Inr: "getitem d k w = (Inr x, w') \<Longrightarrow> map_of d k = Some x \<and> w' = w"
  by (auto simp: getitem_def raise_def ret_def split: option.splits)

lemma np_mean_Inr: "np_mean xs w = (Inr v, w') \<Longrightarrow> xs \<noteq> [] \<and> v = sum_list xs / real (length xs) \<and> w' = w"
  by (auto simp: np_mean_def raise_def ret_def split: if_splits)

lemma set_params_Inr: "set_params p ps w = (Inr q, w') \<Longrightarrow> q = p"
  by (auto simp: set_params_def split: option.splits prod.splits)

section \<open>The finalizer\<close>

lemma hp_names_explicit:
  assumes "map fst ps = hp_names"
  obtains v1 v2 v3 v4 v5 v6 v7 v8 where
    "ps = [(''n_estimators'', v1), (''max_depth'', v2), (''reg_alpha'', v3), (''reg_lambda'', v4),
           (''min_child_weight'', v5), (''gamma'', v6), (''learning_rate'', v7),
           (''colsample_bytree'', v8)]"
proof -
  from assms obtain x1 x2 x3 x4 x5 x6 x7 x8 where
    ps: "ps = [x1, x2, x3, x4, x5, x6, x7, x8]"
    and f: "fst x1 = ''n_estimators''" "fst x2 = ''max_depth''" "fst x3 = ''reg_alpha''"
      "fst x4 = ''reg_lambda''" "fst x5 = ''min_child_weight''" "fst x6 = ''gamma''"
      "fst x7 = ''learning_rate''" "fst x8 = ''colsample_bytree''"
    unfolding hp_names_def by (auto simp: map_eq_Cons_conv)
  have "ps = [(''n_estimators'', snd x1), (''max_depth'', snd x2), (''reg_alpha'', snd x3),
           (''reg_lambda'', snd x4), (''min_child_weight'', snd x5), (''gamma'', snd x6),
           (''learning_rate'', snd x7), (''colsample_bytree'', snd x8)]"
    unfolding ps using f by (simp add: prod_eq_iff)
  then show ?thesis by (rule that)
qed

lemma set_attrs_best:
  assumes "map fst ps = hp_names"
  shows "\<exists>pl'. set_attrs (dict_set ''classifier'' v ps) pl = (None, pl')
      \<and> hyperparameters pl' = ps \<and> classifier pl' = v
      \<and> XGBPipeline.modality pl' = XGBPipeline.modality pl
      \<and> XGBPipeline.classification_type pl' = XGBPipeline.classification_type pl"
proof -
  from assms obtain v1 v2 v3 v4 v5 v6 v7 v8 where
    ps: "ps = [(''n_estimators'', v1), (''max_depth'', v2), (''reg_alpha'', v3), (''reg_lambda'', v4),
           (''min_child_weight'', v5), (''gamma'', v6), (''learning_rate'', v7),
           (''colsample_bytree'', v8)]"
    by (rule hp_names_explicit)
  show ?thesis unfolding ps by (simp add: set_attr_def hyperparameters_def)
qed

lemma set_attrs_paras:
  assumes "map fst ps = hp_names"
  shows "\<exists>pl'. set_attrs ps pl = (None, pl')
      \<and> hyperparameters pl' = ps \<and> classifier pl' = classifier pl
      \<and> XGBPipeline.modality pl' = XGBPipeline.modality pl
      \<and> XGBPipeline.classification_type pl' = XGBPipeline.classification_type pl"
proof -
  from assms obtain v1 v2 v3 v4 v5 v6 v7 v8 where
    ps: "ps = [(''n_estimators'', v1), (''max_depth'', v2), (''reg_alpha'', v3), (''reg_lambda'', v4),
           (''min_child_weight'', v5), (''gamma'', v6), (''learning_rate'', v7),
           (''colsample_bytree'', v8)]"
    by (rule hp_names_explicit)
  show ?thesis unfolding ps by (simp add: set_attr_def hyperparameters_def)
qed

lemma dict_update_best:
  assumes "map fst ps = hp_names"
  shows "dict_update ps ps = ps"
    and "dict_update ((''objective'', v) # ps) ps = (''objective'', v) # ps"
    and "map_of ps ''objective'' = None"
proof -
  from assms obtain v1 v2 v3 v4 v5 v6 v7 v8 where
    ps: "ps = [(''n_estimators'', v1), (''max_depth'', v2), (''reg_alpha'', v3), (''reg_lambda'', v4),
           (''min_child_weight'', v5), (''gamma'', v6), (''learning_rate'', v7),
           (''colsample_bytree'', v8)]"
    by (rule hp_names_explicit)
  show "dict_update ps ps = ps" unfolding ps by simp
  show "dict_update ((''objective'', v) # ps) ps = (''objective'', v) # ps" unfolding ps by simp
  show "map_of ps ''objective'' = None" unfolding ps by simp
qed

lemma cloned_fields:
  "hyperparameters (cloned pl c) = hyperparameters pl"
  "target_column (cloned pl c) = target_column pl"
  "XGBPipeline.modality (cloned pl c) = XGBPipeline.modality pl"
  "XGBPipeline.classification_type (cloned pl c) = XGBPipeline.classification_type pl"
  "classifier (cloned pl c) = PRef c"
  by (simp_all add: cloned_def hyperparameters_def target_column_def)

lemma Optimize_optimize_ok:
  assumes "pipelines w p = Some pl" "classifier pl = PRef a" "classifiers w a = Some cl"
    and "get_concat_dataset env ds (XGBPipeline.modality pl) = (X, gt)"
    and "map_of gt (target_column pl) = Some y"
    and "xgb_fit env (dict_update (xgb_params cl) (hyperparameters pl)) X y = Inr b"
  shows "\<exists>w'. Optimize_optimize env p ds kw w = (Inr (Suc (next_id w)), w')
      \<and> pipelines w' = (pipelines w)(Suc (next_id w) \<mapsto>
            (cloned pl (next_id w))\<lparr>classifier := PRef (Suc (Suc (next_id w)))\<rparr>)
      \<and> classifiers w' = (classifiers w)(next_id w \<mapsto> cl\<lparr>booster := None\<rparr>,
            Suc (Suc (next_id w)) \<mapsto>
              cl\<lparr>xgb_params := dict_update (xgb_params cl) (hyperparameters pl), booster := Some b\<rparr>)
      \<and> next_id w' = Suc (Suc (Suc (next_id w))) \<and> db w' = db w"
proof -
  from clone_ok[OF assms(1-3)] obtain w1 where
    c: "clone p w = (Inr (Suc (next_id w)), w1)"
    and c1: "classifiers w1 = (classifiers w)(next_id w \<mapsto> cl\<lparr>booster := None\<rparr>)"
    and p1: "pipelines w1 = (pipelines w)(Suc (next_id w) \<mapsto> cloned pl (next_id w))"
    and n1: "next_id w1 = Suc (Suc (next_id w))" and d1: "db w1 = db w"
    by blast
  have v1: "pipelines w1 (Suc (next_id w)) = Some (cloned pl (next_id w))"
    and v2: "classifier (cloned pl (next_id w)) = PRef (next_id w)"
    and v3: "classifiers w1 (next_id w) = Some (cl\<lparr>booster := None\<rparr>)"
    by (simp_all add: p1 c1 cloned_fields)
  have v4: "get_concat_dataset env ds (XGBPipeline.modality (cloned pl (next_id w))) = (X, gt)"
    and v5: "map_of gt (target_column (cloned pl (next_id w))) = Some y"
    and v6: "xgb_fit env (dict_update (xgb_params (cl\<lparr>booster := None\<rparr>))
                (hyperparameters (cloned pl (next_id w)))) X y = Inr b"
    using assms(4-6) by (simp_all add: cloned_fields)
  from self_optimize_ok[OF v1 v2 v3 v4 v5 v6, of kw] obtain w' where
    s: "self_optimize env (Suc (next_id w)) ds kw w1 = (Inr (Suc (next_id w)), w')"
    and c2: "classifiers w' = (classifiers w1)(next_id w1 \<mapsto>
                 cl\<lparr>booster := None,
                    xgb_params := dict_update (xgb_params (cl\<lparr>booster := None\<rparr>))
                       (hyperparameters (cloned pl (next_id w))), booster := Some b\<rparr>)"
    and p2: "pipelines w' = (pipelines w1)(Suc (next_id w) \<mapsto>
                (cloned pl (next_id w))\<lparr>classifier := PRef (next_id w1)\<rparr>)"
    and n2: "next_id w' = Suc (next_id w1)" and d2: "db w' = db w1"
    by blast
  have "Optimize_optimize env p ds kw w = (Inr (Suc (next_id w)), w')"
    by (simp add: Optimize_optimize_def and_then_def c s)
  then show ?thesis using c2 p2 n2 d2 c1 p1 n1 d1 by (simp add: cloned_fields)
qed

lemma Optimize_optimize_Inr:
  assumes "Optimize_optimize env p ds kw w = (Inr q, w')"
  obtains pl a cl X gt y b where
    "pipelines w p = Some pl" "classifier pl = PRef a" "classifiers w a = Some cl"
    "get_concat_dataset env ds (XGBPipeline.modality pl) = (X, gt)"
    "map_of gt (target_column pl) = Some y"
    "xgb_fit env (dict_update (xgb_params cl) (hyperparameters pl)) X y = Inr b"
proof -
  from assms[unfolded Optimize_optimize_def] obtain q0 w1 where
    c: "clone p w = (Inr q0, w1)" and s: "self_optimize env q0 ds kw w1 = (Inr q, w')"
    by (rule and_then_InrE)
  from c obtain pl a cl where v: "pipelines w p = Some pl" "classifier pl = PRef a" "classifiers w a = Some cl"
    by (rule clone_Inr)
  from clone_ok[OF v] c have q0: "q0 = Suc (next_id w)"
    and c1: "classifiers w1 = (classifiers w)(next_id w \<mapsto> cl\<lparr>booster := None\<rparr>)"
    and p1: "pipelines w1 = (pipelines w)(Suc (next_id w) \<mapsto> cloned pl (next_id w))"
    by auto
  from s obtain pl1 a1 cl1 X gt y b where
    s1: "pipelines w1 q0 = Some pl1" "classifier pl1 = PRef a1" "classifiers w1 a1 = Some cl1"
     "get_concat_dataset env ds (XGBPipeline.modality pl1) = (X, gt)"
     "map_of gt (target_column pl1) = Some y"
     "xgb_fit env (dict_update (xgb_params cl1) (hyperparameters pl1)) X y = Inr b"
    by (rule self_optimize_Inr)
  from s1(1) have pl1: "pl1 = cloned pl (next_id w)" by (simp add: p1 q0)
  with s1(2) have a1: "a1 = next_id w" by (simp add: cloned_fields)
  with s1(3) have cl1: "cl1 = cl\<lparr>booster := None\<rparr>" by (simp add: c1)
  from s1(4-6) have "get_concat_dataset env ds (XGBPipeline.modality pl) = (X, gt)"
    "map_of gt (target_column pl) = Some y"
    "xgb_fit env (dict_update (xgb_params cl) (hyperparameters pl)) X y = Inr b"
    by (simp_all add: pl1 cl1 cloned_fields)
  with v show ?thesis by (rule that)
qed

lemma best_trial_mem: "best_trial d ts = Inr b \<Longrightarrow> b \<in> set ts"
  by (auto simp: best_trial_def split: option.splits dest: select_best_mem)

lemma best_params_Inr:
  assumes "best_params st w = (Inr best, w')"
  obtains ts bt where "db w (key st) = Some ts" "best_trial (direction st) ts = Inr bt"
    "best = params bt" "w' = w"
  using assms by (auto simp: best_params_def split: option.splits sum.splits)

lemma XGBClassifier_Inr:
  assumes "(if b then XGBClassifier_binary best else XGBClassifier_init best) w = (Inr c, w')"
  shows "c = next_id w
     \<and> classifiers w' = (classifiers w)(next_id w \<mapsto>
          \<lparr>xgb_params = (if b then (''objective'', PStr ''binary:logistic'') # best else best),
           booster = None\<rparr>)
     \<and> pipelines w' = pipelines w \<and> next_id w' = Suc (next_id w) \<and> db w' = db w"
  using assms
  by (auto simp: XGBClassifier_binary_def XGBClassifier_init_def alloc_classifier_def raise_def
      split: if_splits)

lemma XGBClassifier_ok:
  assumes "map fst best = hp_names"
  shows "\<exists>w'. (if b then XGBClassifier_binary best else XGBClassifier_init best) w = (Inr (next_id w), w')"
proof -
  have no: "''objective'' \<notin> set (map fst best)" unfolding assms by (simp add: hp_names_def)
  show ?thesis
  proof (cases b)
    case True
    have "XGBClassifier_binary best w
        = XGBClassifier_init ((''objective'', PStr ''binary:logistic'') # best) w"
      unfolding XGBClassifier_binary_def using no by (simp only: if_False)
    with True show ?thesis by (simp add: XGBClassifier_init_def alloc_classifier_def)
  next
    case False
    then show ?thesis by (simp add: XGBClassifier_init_def alloc_classifier_def)
  qed
qed

lemma set_params_exact:
  assumes "set_params p ps w = (Inr q, w')"
  obtains pl pl' where "pipelines w p = Some pl" "set_attrs ps pl = (None, pl')"
    "pipelines w' = (pipelines w)(p \<mapsto> pl')" "classifiers w' = classifiers w"
    "next_id w' = next_id w" "db w' = db w" "q = p"
proof -
  from assms obtain pl where pl: "pipelines w p = Some pl"
    by (cases "pipelines w p") (simp_all add: set_params_def)
  obtain e pl' where sa: "set_attrs ps pl = (e, pl')" by (cases "set_attrs ps pl")
  from assms pl sa have e: "e = None" by (cases e) (simp_all add: set_params_def)
  from assms pl sa e have "q = p" "w' = w\<lparr>pipelines := (pipelines w)(p \<mapsto> pl')\<rparr>"
    by (auto simp: set_params_def)
  then have "pipelines w' = (pipelines w)(p \<mapsto> pl')" "classifiers w' = classifiers w"
    "next_id w' = next_id w" "db w' = db w" "q = p" by simp_all
  with pl sa[unfolded e] show ?thesis by (rule that)
qed

lemma set_params_ok:
  assumes "pipelines w p = Some pl" "set_attrs ps pl = (None, pl')"
  shows "\<exists>w'. set_params p ps w = (Inr p, w') \<and> pipelines w' = (pipelines w)(p \<mapsto> pl')
     \<and> classifiers w' = classifiers w \<and> next_id w' = next_id w \<and> db w' = db w"
  using assms by (simp add: set_params_def)

lemma finalize_Inr:
  assumes run: "and_then (best_params st) (\<lambda>best_parameters.
     and_then (if b then XGBClassifier_binary best_parameters
               else XGBClassifier_init best_parameters) (\<lambda>c.
     and_then (clone p) (\<lambda>cl.
     and_then (set_params cl (dict_set ''classifier'' (PRef c) best_parameters)) (\<lambda>q.
     and_then (Optimize_optimize env q ds kw) (\<lambda>opt.
     ret (self\<lparr>optimized_pipeline := Some opt\<rparr>)))))) w = (Inr self', w')"
    and db: "db w (key st) = Some ts"
    and names: "\<forall>t\<in>set ts. map fst (params t) = hp_names"
  obtains bt tmpl opt pl cf clf X gt y bst where
    "best_trial (direction st) ts = Inr bt"
    "pipelines w p = Some tmpl"
    "self' = self\<lparr>optimized_pipeline := Some opt\<rparr>"
    "next_id w \<le> opt" "pipelines w' opt = Some pl"
    "hyperparameters pl = params bt"
    "XGBPipeline.modality pl = XGBPipeline.modality tmpl"
    "XGBPipeline.classification_type pl = XGBPipeline.classification_type tmpl"
    "classifier pl = PRef cf" "next_id w \<le> cf" "classifiers w' cf = Some clf"
    "xgb_params clf = (if b then (''objective'', PStr ''binary:logistic'') # params bt else params bt)"
    "booster clf = Some bst"
    "get_concat_dataset env ds (XGBPipeline.modality tmpl) = (X, gt)"
    "map_of gt (target_column tmpl) = Some y"
    "xgb_fit env (xgb_params clf) X y = Inr bst"
    "classifiers w' (next_id w) =
       Some \<lparr>xgb_params = (if b then (''objective'', PStr ''binary:logistic'') # params bt else params bt),
             booster = None\<rparr>"
    "next_id w' = Suc cf"
proof -
  let ?n = "next_id w"
  from run obtain best w1 where bp: "best_params st w = (Inr best, w1)"
    and r1: "and_then (if b then XGBClassifier_binary best else XGBClassifier_init best) (\<lambda>c.
     and_then (clone p) (\<lambda>cl.
     and_then (set_params cl (dict_set ''classifier'' (PRef c) best)) (\<lambda>q.
     and_then (Optimize_optimize env q ds kw) (\<lambda>opt.
     ret (self\<lparr>optimized_pipeline := Some opt\<rparr>))))) w1 = (Inr self', w')"
    by (rule and_then_InrE)
  from bp db obtain bt where bt: "best_trial (direction st) ts = Inr bt"
    and best: "best = params bt" and w1: "w1 = w"
    by (auto elim: best_params_Inr)
  from best_trial_mem[OF bt] names have nm: "map fst best = hp_names" by (simp add: best)
  let ?kw0 = "if b then (''objective'', PStr ''binary:logistic'') # best else best"
  from r1[unfolded w1] obtain c w2 where
    mk: "(if b then XGBClassifier_binary best else XGBClassifier_init best) w = (Inr c, w2)"
    and r2: "and_then (clone p) (\<lambda>cl.
     and_then (set_params cl (dict_set ''classifier'' (PRef c) best)) (\<lambda>q.
     and_then (Optimize_optimize env q ds kw) (\<lambda>opt.
     ret (self\<lparr>optimized_pipeline := Some opt\<rparr>)))) w2 = (Inr self', w')"
    by (rule and_then_InrE)
  from XGBClassifier_Inr[OF mk] have c: "c = ?n"
    and c2: "classifiers w2 = (classifiers w)(?n \<mapsto> \<lparr>xgb_params = ?kw0, booster = None\<rparr>)"
    and p2: "pipelines w2 = pipelines w" and n2: "next_id w2 = Suc ?n"
    by simp_all
  from r2 obtain cl w3 where cln: "clone p w2 = (Inr cl, w3)"
    and r3: "and_then (set_params cl (dict_set ''classifier'' (PRef c) best)) (\<lambda>q.
     and_then (Optimize_optimize env q ds kw) (\<lambda>opt.
     ret (self\<lparr>optimized_pipeline := Some opt\<rparr>))) w3 = (Inr self', w')"
    by (rule and_then_InrE)
  from cln obtain tmpl a cla where v: "pipelines w2 p = Some tmpl" "classifier tmpl = PRef a"
    "classifiers w2 a = Some cla"
    by (rule clone_Inr)
  from clone_ok[OF v] cln have cl: "cl = Suc (Suc ?n)"
    and c3: "classifiers w3 = (classifiers w2)(Suc ?n \<mapsto> cla\<lparr>booster := None\<rparr>)"
    and p3: "pipelines w3 = (pipelines w2)(Suc (Suc ?n) \<mapsto> cloned tmpl (Suc ?n))"
    and n3: "next_id w3 = Suc (Suc (Suc ?n))"
    by (auto simp: n2)
  from r3 obtain q w4 where sp: "set_params cl (dict_set ''classifier'' (PRef c) best) w3 = (Inr q, w4)"
    and r4: "and_then (Optimize_optimize env q ds kw) (\<lambda>opt.
     ret (self\<lparr>optimized_pipeline := Some opt\<rparr>)) w4 = (Inr self', w')"
    by (rule and_then_InrE)
  from sp obtain pl0 pl2 where s0: "pipelines w3 cl = Some pl0"
    and s1: "set_attrs (dict_set ''classifier'' (PRef c) best) pl0 = (None, pl2)"
    and p4: "pipelines w4 = (pipelines w3)(cl \<mapsto> pl2)" and c4: "classifiers w4 = classifiers w3"
    and n4: "next_id w4 = next_id w3" and q: "q = cl"
    by (rule set_params_exact)
  from s0 have pl0: "pl0 = cloned tmpl (Suc ?n)" by (simp add: p3 cl)
  from set_attrs_best[OF nm, of "PRef c" pl0] s1 have
    h2: "hyperparameters pl2 = best" and k2: "classifier pl2 = PRef c"
    and m2: "XGBPipeline.modality pl2 = XGBPipeline.modality tmpl"
    and t2: "XGBPipeline.classification_type pl2 = XGBPipeline.classification_type tmpl"
    by (auto simp: pl0 cloned_fields)
  have tc2: "target_column pl2 = target_column tmpl" by (simp add: target_column_def t2)
  from r4 obtain opt w5 where oo: "Optimize_optimize env q ds kw w4 = (Inr opt, w5)"
    and "ret (self\<lparr>optimized_pipeline := Some opt\<rparr>) w5 = (Inr self', w')"
    by (rule and_then_InrE)
  then have self': "self' = self\<lparr>optimized_pipeline := Some opt\<rparr>" and w5: "w5 = w'"
    by (simp_all add: ret_def)
  have u1: "pipelines w4 q = Some pl2" by (simp add: p4 q)
  have u3: "classifiers w4 c = Some \<lparr>xgb_params = ?kw0, booster = None\<rparr>"
    by (simp add: c4 c3 c2 c)
  from oo obtain pl' a' cl' X gt y bst where
    o: "pipelines w4 q = Some pl'" "classifier pl' = PRef a'" "classifiers w4 a' = Some cl'"
       "get_concat_dataset env ds (XGBPipeline.modality pl') = (X, gt)"
       "map_of gt (target_column pl') = Some y"
       "xgb_fit env (dict_update (xgb_params cl') (hyperparameters pl')) X y = Inr bst"
    by (rule Optimize_optimize_Inr)
  from o(1) u1 have pl': "pl' = pl2" by simp
  with o(2) k2 have a': "a' = c" by simp
  with o(3) u3 have cl': "cl' = \<lparr>xgb_params = ?kw0, booster = None\<rparr>" by simp
  have upd: "dict_update ?kw0 best = ?kw0" using dict_update_best(1,2)[OF nm] by simp
  from o(4-6) have dat: "get_concat_dataset env ds (XGBPipeline.modality tmpl) = (X, gt)"
      "map_of gt (target_column tmpl) = Some y" "xgb_fit env ?kw0 X y = Inr bst"
    by (simp_all add: pl' cl' m2 tc2 h2 upd)
  from Optimize_optimize_ok[OF u1 k2 u3, of env ds X gt y bst kw] o(4-6) oo
  have opt: "opt = Suc (next_id w4)"
    and p5: "pipelines w5 = (pipelines w4)(Suc (next_id w4) \<mapsto>
            (cloned pl2 (next_id w4))\<lparr>classifier := PRef (Suc (Suc (next_id w4)))\<rparr>)"
    and c5: "classifiers w5 = (classifiers w4)(next_id w4 \<mapsto> \<lparr>xgb_params = ?kw0, booster = None\<rparr>\<lparr>booster := None\<rparr>,
            Suc (Suc (next_id w4)) \<mapsto>
              \<lparr>xgb_params = ?kw0, booster = None\<rparr>\<lparr>xgb_params := dict_update ?kw0 (hyperparameters pl2), booster := Some bst\<rparr>)"
    and n5: "next_id w5 = Suc (Suc (Suc (next_id w4)))"
    by (auto simp: pl' cl')
  let ?pl = "(cloned pl2 (next_id w4))\<lparr>classifier := PRef (Suc (Suc (next_id w4)))\<rparr>"
  let ?clf = "\<lparr>xgb_params = ?kw0, booster = Some bst\<rparr>"
  have f1: "pipelines w' opt = Some ?pl" using p5 by (simp add: opt w5)
  have f2: "hyperparameters ?pl = params bt"
    using h2 by (simp add: best hyperparameters_def cloned_def)
  have f3: "XGBPipeline.modality ?pl = XGBPipeline.modality tmpl"
    "XGBPipeline.classification_type ?pl = XGBPipeline.classification_type tmpl"
    using m2 t2 by (simp_all add: cloned_def)
  have f4: "classifier ?pl = PRef (Suc (Suc (next_id w4)))" by simp
  have f5: "classifiers w' (Suc (Suc (next_id w4))) = Some ?clf"
    using c5 by (simp add: w5 h2 upd)
  have f6: "classifiers w' ?n = Some \<lparr>xgb_params = ?kw0, booster = None\<rparr>"
    using c5 u3 by (simp add: w5 n4 n3 c)
  have g1: "?n \<le> opt" "?n \<le> Suc (Suc (next_id w4))" by (simp_all add: opt n4 n3)
  have tm: "pipelines w p = Some tmpl" using v(1) by (simp add: p2)
  show ?thesis
    by (rule that[OF bt tm self' g1(1) f1 f2 f3 f4 g1(2) f5 _ _ dat(1,2) _ _ _])
       (simp_all add: best dat(3) f6 n5[unfolded w5])
qed

lemma study_optimize_one:
  "study_optimize st f 1 w = (r, w') \<Longrightarrow> \<exists>r'. run_trial st f w = (r', w') \<and> (r = Inr () \<or> (\<exists>e. r = Inl e \<and> r' = Inl e))"
  by (auto simp: ret_def elim!: and_then_cases)

lemma optimize_Inr:
  assumes run: "optimize env self ds kw w = (Inr self', w')"
    and names: "\<forall>t\<in>set (study_log w (study_key env self)). map fst (params t) = hp_names"
  obtains bt tmpl opt pl cf clf X gt y bst c w2 where
    "best_trial Maximize (study_log w' (study_key env self)) = Inr bt"
    "frame {} {} w w2" "pipelines w2 (pipeline self) = Some tmpl"
    "optimized_pipeline self' = Some opt"
    "next_id w \<le> opt" "pipelines w' opt = Some pl"
    "hyperparameters pl = params bt"
    "XGBPipeline.modality pl = XGBPipeline.modality tmpl"
    "XGBPipeline.classification_type pl = XGBPipeline.classification_type tmpl"
    "classifier pl = PRef cf" "next_id w \<le> cf" "classifiers w' cf = Some clf"
    "xgb_params clf = (if classification_type self = ''binary''
                       then (''objective'', PStr ''binary:logistic'') # params bt else params bt)"
    "booster clf = Some bst"
    "get_concat_dataset env ds (XGBPipeline.modality tmpl) = (X, gt)"
    "map_of gt (target_column tmpl) = Some y"
    "xgb_fit env (xgb_params clf) X y = Inr bst"
    "next_id w \<le> c"
    "classifiers w' c =
       Some \<lparr>xgb_params = (if classification_type self = ''binary''
                       then (''objective'', PStr ''binary:logistic'') # params bt else params bt),
             booster = None\<rparr>"
    "next_id w' = Suc cf"
proof -
  let ?k = "study_key env self"
  let ?b = "classification_type self = ''binary''"
  from run[unfolded optimize_def] obtain st w1 where
    cs: "create_study Maximize (study_name (modality self)) (seed self)
                 (storage (get_db_path env) (modality self) (classification_type self)) w = (Inr st, w1)"
    and r1: "and_then (study_optimize st (objective env self ds) 1) (\<lambda>_.
     and_then (best_params st) (\<lambda>best_parameters.
     and_then (if ?b then XGBClassifier_binary best_parameters
               else XGBClassifier_init best_parameters) (\<lambda>c.
     and_then (clone (pipeline self)) (\<lambda>cl.
     and_then (set_params cl (dict_set ''classifier'' (PRef c) best_parameters)) (\<lambda>p.
     and_then (Optimize_optimize env p ds kw) (\<lambda>opt.
     ret (self\<lparr>optimized_pipeline := Some opt\<rparr>))))))) w1 = (Inr self', w')"
    by (rule and_then_InrE)
  from create_study_run[OF cs] have
    st: "st = \<lparr>key = ?k, direction = Maximize, sampler_seed = seed self\<rparr>"
    and db1: "db w1 = (db w)(?k \<mapsto> study_log w ?k)"
    and o1: "pipelines w1 = pipelines w" "classifiers w1 = classifiers w" "next_id w1 = next_id w"
    by (simp_all add: study_key_def)
  have k: "key st = ?k" and d: "direction st = Maximize" by (simp_all add: st)
  from r1 obtain u w2 where so: "study_optimize st (objective env self ds) 1 w1 = (Inr u, w2)"
    and r2: "and_then (best_params st) (\<lambda>best_parameters.
     and_then (if ?b then XGBClassifier_binary best_parameters
               else XGBClassifier_init best_parameters) (\<lambda>c.
     and_then (clone (pipeline self)) (\<lambda>cl.
     and_then (set_params cl (dict_set ''classifier'' (PRef c) best_parameters)) (\<lambda>p.
     and_then (Optimize_optimize env p ds kw) (\<lambda>opt.
     ret (self\<lparr>optimized_pipeline := Some opt\<rparr>)))))) w2 = (Inr self', w')"
    by (rule and_then_InrE)
  from study_optimize_one[OF so] obtain r' where rt: "run_trial st (objective env self ds) w1 = (r', w2)"
    by blast
  have db1k: "db w1 (key st) = Some (study_log w ?k)" by (simp add: db1 k)
  from run_trial_trace[OF db1k rt] obtain paras ro where
    f2: "frame {} {} w1 w2" and pn: "map fst paras = hp_names"
    and db2: "db w2 = (db w1)(key st \<mapsto> study_log w ?k @
                  [\<lparr>number = length (study_log w ?k), params = paras, state = outcome ro\<rparr>])"
    by blast
  let ?ts = "study_log w ?k @ [\<lparr>number = length (study_log w ?k), params = paras, state = outcome ro\<rparr>]"
  have db2k: "db w2 (key st) = Some ?ts" by (simp add: db2)
  have nm: "\<forall>t\<in>set ?ts. map fst (params t) = hp_names" using names pn by auto
  from finalize_frame[OF r2] have db3: "db w' = db w2" by simp
  have log': "study_log w' ?k = ?ts" using db3 db2k by (simp add: study_log_def k)
  have fw: "frame {} {} w w2" using f2 o1 by (simp add: frame_def)
  then have le: "next_id w \<le> next_id w2" by (simp add: frame_def)
  from r2 db2k nm obtain bt tmpl opt pl cf clf X gt y bst where
    F: "best_trial (direction st) ?ts = Inr bt"
    "pipelines w2 (pipeline self) = Some tmpl"
    "self' = self\<lparr>optimized_pipeline := Some opt\<rparr>"
    "next_id w2 \<le> opt" "pipelines w' opt = Some pl"
    "hyperparameters pl = params bt"
    "XGBPipeline.modality pl = XGBPipeline.modality tmpl"
    "XGBPipeline.classification_type pl = XGBPipeline.classification_type tmpl"
    "classifier pl = PRef cf" "next_id w2 \<le> cf" "classifiers w' cf = Some clf"
    "xgb_params clf = (if ?b then (''objective'', PStr ''binary:logistic'') # params bt else params bt)"
    "booster clf = Some bst"
    "get_concat_dataset env ds (XGBPipeline.modality tmpl) = (X, gt)"
    "map_of gt (target_column tmpl) = Some y"
    "xgb_fit env (xgb_params clf) X y = Inr bst"
    "classifiers w' (next_id w2) =
       Some \<lparr>xgb_params = (if ?b then (''objective'', PStr ''binary:logistic'') # params bt else params bt),
             booster = None\<rparr>"
    "next_id w' = Suc cf"
    by (rule finalize_Inr)
  have b1: "best_trial Maximize (study_log w' ?k) = Inr bt" using F(1) by (simp add: log' d)
  have b2: "optimized_pipeline self' = Some opt" by (simp add: F(3))
  have b3: "next_id w \<le> opt" "next_id w \<le> cf" using F(4,10) le by simp_all
  show ?thesis
    by (rule that[OF b1 fw F(2) b2 b3(1) F(5-9) b3(2) F(11-16) le F(17,18)])
qed

section \<open>Runs that succeed\<close>

text \<open>
  Conditions under which the cross-validation, the objective and \<open>optimize\<close> return a
  value: the template and its classifier exist, every train split and the whole dataset
  can be trained on, and the scoring function reports \<open>mcc\<close>.
\<close>

lemma Optimize_optimize_trainable:
  assumes "pipelines w p = Some pl" "classifier pl = PRef a" "classifiers w a = Some cl"
    and "trainable env (XGBPipeline.modality pl) (target_column pl) ds"
  shows "\<exists>q w'. Optimize_optimize env p ds kw w = (Inr q, w')"
proof -
  obtain X gt where g: "get_concat_dataset env ds (XGBPipeline.modality pl) = (X, gt)"
    by (cases "get_concat_dataset env ds (XGBPipeline.modality pl)")
  from assms(4) g obtain y where y: "map_of gt (target_column pl) = Some y"
    and f: "\<forall>ps. \<exists>b. xgb_fit env ps X y = Inr b"
    by (auto simp: trainable_def)
  from f obtain b where "xgb_fit env (dict_update (xgb_params cl) (hyperparameters pl)) X y = Inr b"
    by blast
  from Optimize_optimize_ok[OF assms(1-3) g y this, of kw] show ?thesis by blast
qed

lemma cv_folds_ok:
  assumes "pipelines w p = Some pl" "classifier pl = PRef a" "classifiers w a = Some cl"
    and "p < next_id w" "a < next_id w"
    and "\<forall>(train, test)\<in>set folds. trainable env (XGBPipeline.modality pl) (target_column pl) train"
    and sc: "\<And>q t v. sc q t v = Inr s"
  shows "\<exists>w'. cv_folds env p folds kw sc w = (Inr (replicate (length folds) s), w')"
  using assms(1-6)
proof (induction folds arbitrary: w)
  case Nil
  then show ?case by (simp add: ret_def)
next
  case (Cons f folds)
  obtain train test where f: "f = (train, test)" by (cases f)
  from Cons.prems(6) have tr: "trainable env (XGBPipeline.modality pl) (target_column pl) train"
    and rest: "\<forall>(train, test)\<in>set folds. trainable env (XGBPipeline.modality pl) (target_column pl) train"
    by (simp_all add: f)
  from Optimize_optimize_trainable[OF Cons.prems(1-3) tr, of kw] obtain q w1 where
    o: "Optimize_optimize env p train kw w = (Inr q, w1)" by blast
  from Optimize_optimize_frame[OF o] Cons.prems(4,5) have
    v: "pipelines w1 p = pipelines w p" "classifiers w1 a = classifiers w a"
       "p < next_id w1" "a < next_id w1"
    by (auto simp: frame_def)
  from Cons.IH[OF _ Cons.prems(2) _ v(3,4) rest] v(1,2) Cons.prems(1,3) obtain w2 where
    r: "cv_folds env p folds kw sc w1 = (Inr (replicate (length folds) s), w2)" by auto
  have "score sc q test w1 = (Inr s, w1)" by (simp add: score_def sc)
  with o r show ?case by (simp add: f and_then_def ret_def)
qed

lemma map_filter_replicate:
  "f s = Some x \<Longrightarrow> List.map_filter f (replicate n s) = replicate n x"
  by (induction n) (simp_all add: List.map_filter_def)

lemma objective_ok:
  assumes db: "db w (key (study h)) = Some ts" "trial_id h < length ts" "params (ts ! trial_id h) = []"
    and tm: "pipelines w (pipeline self) = Some tmpl" "classifier tmpl = PRef a" "classifiers w a = Some cl"
    and tr: "\<forall>(train, test)\<in>set (kfold env 5 ds).
               trainable env (XGBPipeline.modality tmpl) (target_column tmpl) train"
    and sc: "\<And>q t v. score_function self q t v = Inr [(''mcc'', x)]"
    and ne: "kfold env 5 ds \<noteq> []"
  shows "\<exists>w'. objective env self ds h w = (Inr x, w')"
proof -
  let ?kw = "[(''early_stopping_rounds'', PInt 10), (''pruning_callback'', PruningCallback ''test_mcc'')]"
  from paras_to_be_searched_ok[OF db, of env] obtain paras w1 where
    p: "paras_to_be_searched env h w = (Inr paras, w1)" and nm: "map fst paras = hp_names"
    and S: "sampled w h ts paras w1" by blast
  from S have o1: "pipelines w1 = pipelines w" "classifiers w1 = classifiers w" "next_id w1 = next_id w"
    by (simp_all add: sampled_def)
  let ?n = "next_id w"
  from clone_ok[of w1 "pipeline self" tmpl a cl] tm o1 obtain w2 where
    c: "clone (pipeline self) w1 = (Inr (Suc ?n), w2)"
    and c2: "classifiers w2 = (classifiers w)(?n \<mapsto> cl\<lparr>booster := None\<rparr>)"
    and p2: "pipelines w2 = (pipelines w)(Suc ?n \<mapsto> cloned tmpl ?n)"
    and n2: "next_id w2 = Suc (Suc ?n)"
    by auto
  from set_attrs_paras[OF nm, of "cloned tmpl ?n"] obtain pl' where
    sa: "set_attrs paras (cloned tmpl ?n) = (None, pl')"
    and k: "classifier pl' = PRef ?n"
    and m: "XGBPipeline.modality pl' = XGBPipeline.modality tmpl"
    and t: "XGBPipeline.classification_type pl' = XGBPipeline.classification_type tmpl"
    by (auto simp: cloned_fields)
  have tc: "target_column pl' = target_column tmpl" by (simp add: target_column_def t)
  have "pipelines w2 (Suc ?n) = Some (cloned tmpl ?n)" by (simp add: p2)
  from set_params_ok[OF this sa] obtain w3 where
    s: "set_params (Suc ?n) paras w2 = (Inr (Suc ?n), w3)"
    and p3: "pipelines w3 = (pipelines w2)(Suc ?n \<mapsto> pl')"
    and c3: "classifiers w3 = classifiers w2" and n3: "next_id w3 = next_id w2"
    by blast
  have v: "pipelines w3 (Suc ?n) = Some pl'" "classifiers w3 ?n = Some (cl\<lparr>booster := None\<rparr>)"
    "Suc ?n < next_id w3" "?n < next_id w3"
    by (simp_all add: p3 c3 c2 n3 n2)
  have tr': "\<forall>(train, test)\<in>set (kfold env 5 ds).
               trainable env (XGBPipeline.modality pl') (target_column pl') train"
    using tr by (simp add: m tc)
  from cv_folds_ok[OF v(1) k v(2,3,4) tr', of "score_function self" "[(''mcc'', x)]" ?kw] sc
  obtain w4 where
    f: "cv_folds env (Suc ?n) (kfold env 5 ds) ?kw (score_function self) w3
          = (Inr (replicate (length (kfold env 5 ds)) [(''mcc'', x)]), w4)"
    by blast
  let ?k = "length (kfold env 5 ds)"
  from ne obtain j where j: "?k = Suc j" by (cases "kfold env 5 ds") auto
  have res: "cv_results (replicate ?k [(''mcc'', x)]) = [(''test_mcc'', replicate ?k x)]"
    unfolding j by (simp add: cv_results_def List.map_filter_def map_filter_replicate[unfolded List.map_filter_def])
  have mean: "np_mean (replicate ?k x) w4 = (Inr x, w4)"
    unfolding j by (simp add: np_mean_def ret_def sum_list_replicate field_simps del: replicate.simps)
  have cv: "cross_validate env (Suc ?n) ds 5 ?kw (score_function self) w3
      = (Inr [(''test_mcc'', replicate ?k x)], w4)"
    by (simp add: cross_validate_def and_then_def f ret_def res)
  have g: "getitem [(''test_mcc'', replicate ?k x)] ''test_mcc'' w4 = (Inr (replicate ?k x), w4)"
    by (simp add: getitem_def ret_def)
  have "objective env self ds h w = (Inr x, w4)"
    by (simp add: objective_def and_then_def p c s cv g mean)
  then show ?thesis by blast
qed

lemma finalize_ok:
  assumes db: "db w (key st) = Some ts"
    and names: "\<forall>t\<in>set ts. map fst (params t) = hp_names"
    and compl: "t0 \<in> set ts" "state t0 = COMPLETE v0"
    and d: "direction st = Maximize"
    and tm: "pipelines w p = Some tmpl" "classifier tmpl = PRef a" "classifiers w a = Some cl"
       "a < next_id w"
    and whole: "trainable env (XGBPipeline.modality tmpl) (target_column tmpl) ds"
  shows "\<exists>self' w'. and_then (best_params st) (\<lambda>best_parameters.
     and_then (if b then XGBClassifier_binary best_parameters
               else XGBClassifier_init best_parameters) (\<lambda>c.
     and_then (clone p) (\<lambda>cl.
     and_then (set_params cl (dict_set ''classifier'' (PRef c) best_parameters)) (\<lambda>q.
     and_then (Optimize_optimize env q ds kw) (\<lambda>opt.
     ret (self\<lparr>optimized_pipeline := Some opt\<rparr>)))))) w = (Inr self', w')"
proof -
  let ?n = "next_id w"
  from best_trial_maximal[OF compl] obtain bt where bt: "best_trial Maximize ts = Inr bt"
    and mem: "bt \<in> set ts" by blast
  from mem names have nm: "map fst (params bt) = hp_names" by simp
  have bp: "best_params st w = (Inr (params bt), w)" by (simp add: best_params_def db d bt)
  let ?kw0 = "if b then (''objective'', PStr ''binary:logistic'') # params bt else params bt"
  from XGBClassifier_ok[OF nm, of b w] obtain w2 where
    mk: "(if b then XGBClassifier_binary (params bt) else XGBClassifier_init (params bt)) w = (Inr ?n, w2)"
    by blast
  from XGBClassifier_Inr[OF mk] have
    c2: "classifiers w2 = (classifiers w)(?n \<mapsto> \<lparr>xgb_params = ?kw0, booster = None\<rparr>)"
    and p2: "pipelines w2 = pipelines w" and n2: "next_id w2 = Suc ?n"
    by simp_all
  have v2: "pipelines w2 p = Some tmpl" "classifiers w2 a = Some cl"
    using tm by (simp_all add: p2 c2)
  from clone_ok[OF v2(1) tm(2) v2(2)] obtain w3 where
    cln: "clone p w2 = (Inr (Suc (Suc ?n)), w3)"
    and c3: "classifiers w3 = (classifiers w2)(Suc ?n \<mapsto> cl\<lparr>booster := None\<rparr>)"
    and p3: "pipelines w3 = (pipelines w2)(Suc (Suc ?n) \<mapsto> cloned tmpl (Suc ?n))"
    by (auto simp: n2)
  from set_attrs_best[OF nm, of "PRef ?n" "cloned tmpl (Suc ?n)"] obtain pl2 where
    sa: "set_attrs (dict_set ''classifier'' (PRef ?n) (params bt)) (cloned tmpl (Suc ?n)) = (None, pl2)"
    and k2: "classifier pl2 = PRef ?n"
    and m2: "XGBPipeline.modality pl2 = XGBPipeline.modality tmpl"
    and t2: "XGBPipeline.classification_type pl2 = XGBPipeline.classification_type tmpl"
    by (auto simp: cloned_fields)
  have tc2: "target_column pl2 = target_column tmpl" by (simp add: target_column_def t2)
  have "pipelines w3 (Suc (Suc ?n)) = Some (cloned tmpl (Suc ?n))" by (simp add: p3)
  from set_params_ok[OF this sa] obtain w4 where
    sp: "set_params (Suc (Suc ?n)) (dict_set ''classifier'' (PRef ?n) (params bt)) w3
           = (Inr (Suc (Suc ?n)), w4)"
    and p4: "pipelines w4 = (pipelines w3)(Suc (Suc ?n) \<mapsto> pl2)"
    and c4: "classifiers w4 = classifiers w3"
    by blast
  have u: "pipelines w4 (Suc (Suc ?n)) = Some pl2"
    "classifiers w4 ?n = Some \<lparr>xgb_params = ?kw0, booster = None\<rparr>"
    by (simp_all add: p4 c4 c3 c2)
  have "trainable env (XGBPipeline.modality pl2) (target_column pl2) ds"
    using whole by (simp add: m2 tc2)
  from Optimize_optimize_trainable[OF u(1) k2 u(2) this, of kw] obtain opt w5 where
    oo: "Optimize_optimize env (Suc (Suc ?n)) ds kw w4 = (Inr opt, w5)" by blast
  show ?thesis by (simp add: and_then_def bp mk cln sp oo ret_def)
qed

lemma optimize_ok:
  assumes tm: "pipelines w (pipeline self) = Some tmpl" "classifier tmpl = PRef a"
      "classifiers w a = Some cl" "pipeline self < next_id w" "a < next_id w"
    and names: "\<forall>t\<in>set (study_log w (study_key env self)). map fst (params t) = hp_names"
    and tr: "\<forall>(train, test)\<in>set (kfold env 5 ds).
               trainable env (XGBPipeline.modality tmpl) (target_column tmpl) train"
    and whole: "trainable env (XGBPipeline.modality tmpl) (target_column tmpl) ds"
    and sc: "\<And>q t v. score_function self q t v = Inr [(''mcc'', x)]"
    and ne: "kfold env 5 ds \<noteq> []"
  shows "\<exists>self' w'. optimize env self ds kw w = (Inr self', w')"
proof -
  let ?k = "study_key env self"
  obtain r1 w1 where cs: "create_study Maximize (study_name (modality self)) (seed self)
                 (storage (get_db_path env) (modality self) (classification_type self)) w = (r1, w1)"
    by (cases "create_study Maximize (study_name (modality self)) (seed self)
                 (storage (get_db_path env) (modality self) (classification_type self)) w")
  let ?st = "\<lparr>key = ?k, direction = Maximize, sampler_seed = seed self\<rparr>"
  from create_study_run[OF cs] have
    r1: "r1 = Inr ?st"
    and db1: "db w1 = (db w)(?k \<mapsto> study_log w ?k)"
    and o1: "pipelines w1 = pipelines w" "classifiers w1 = classifiers w" "next_id w1 = next_id w"
    by (simp_all add: study_key_def)
  obtain r2 w2 where rt: "run_trial ?st (objective env self ds) w1 = (r2, w2)"
    by (cases "run_trial ?st (objective env self ds) w1")
  have db1k: "db w1 (key ?st) = Some (study_log w ?k)" by (simp add: db1)
  from run_trial_trace[OF db1k rt] obtain paras ro w0 w0' where
    r2: "r2 = Inr ()" and f2: "frame {} {} w1 w2" and pn: "map fst paras = hp_names"
    and o0: "pipelines w0 = pipelines w1" "classifiers w0 = classifiers w1"
    and db0: "db w0 (key ?st) = Some (study_log w ?k @
                [\<lparr>number = length (study_log w ?k), params = [], state = RUNNING\<rparr>])"
    and ob: "objective env self ds \<lparr>study = ?st, trial_id = length (study_log w ?k)\<rparr> w0 = (ro, w0')"
    and db2: "db w2 = (db w1)(key ?st \<mapsto> study_log w ?k @
                  [\<lparr>number = length (study_log w ?k), params = paras, state = outcome ro\<rparr>])"
    by blast
  let ?h = "\<lparr>study = ?st, trial_id = length (study_log w ?k)\<rparr>"
  have h1: "db w0 (key (study ?h)) = Some (study_log w ?k @
                [\<lparr>number = length (study_log w ?k), params = [], state = RUNNING\<rparr>])"
    using db0 by simp
  have h2: "trial_id ?h < length (study_log w ?k @
                [\<lparr>number = length (study_log w ?k), params = [], state = RUNNING\<rparr>])" by simp
  have h3: "params ((study_log w ?k @
                [\<lparr>number = length (study_log w ?k), params = [], state = RUNNING\<rparr>]) ! trial_id ?h) = []"
    by simp
  have t0: "pipelines w0 (pipeline self) = Some tmpl" "classifiers w0 a = Some cl"
    using tm by (simp_all add: o0 o1)
  from objective_ok[OF h1 h2 h3 t0(1) tm(2) t0(2) tr sc ne] ob have ro: "ro = Inr x" by auto
  let ?t = "\<lparr>number = length (study_log w ?k), params = paras, state = COMPLETE x\<rparr>"
  let ?ts = "study_log w ?k @ [?t]"
  have db2k: "db w2 (key ?st) = Some ?ts" by (simp add: db2 ro)
  have nm: "\<forall>t\<in>set ?ts. map fst (params t) = hp_names" using names pn by auto
  have so: "study_optimize ?st (objective env self ds) 1 w1 = (Inr (), w2)"
    by (simp add: and_then_def rt r2 ret_def)
  from f2 tm o1 have t2: "pipelines w2 (pipeline self) = Some tmpl" "classifiers w2 a = Some cl"
    "a < next_id w2"
    by (auto simp: frame_def)
  have mem: "?t \<in> set ?ts" "state ?t = COMPLETE x" by simp_all
  have dir: "direction ?st = Maximize" by simp
  from finalize_ok[OF db2k nm mem dir t2(1) tm(2) t2(2,3) whole,
      of "classification_type self = ''binary''" kw self]
  obtain self' w' where fin: "and_then (best_params ?st) (\<lambda>best_parameters.
     and_then (if classification_type self = ''binary'' then XGBClassifier_binary best_parameters
               else XGBClassifier_init best_parameters) (\<lambda>c.
     and_then (clone (pipeline self)) (\<lambda>cl.
     and_then (set_params cl (dict_set ''classifier'' (PRef c) best_parameters)) (\<lambda>q.
     and_then (Optimize_optimize env q ds kw) (\<lambda>opt.
     ret (self\<lparr>optimized_pipeline := Some opt\<rparr>)))))) w2 = (Inr self', w')"
    by blast
  have "optimize env self ds kw w = (Inr self', w')"
    unfolding optimize_def
    by (subst and_then_def, simp only: cs r1 prod.case sum.case,
        subst and_then_def, simp only: so prod.case sum.case, rule fin)
  then show ?thesis by blast
qed

lemma example_trainable: "ds \<noteq> [] \<Longrightarrow> trainable example_env m ''sleep'' ds"
  by (simp add: trainable_def example_env_def)

lemma example_folds:
  "\<forall>(train, test)\<in>set (kfold example_env 5 example_dataset). trainable example_env m ''sleep'' train"
proof -
  have "filter (\<lambda>x. x mod 5 \<noteq> i) example_dataset \<noteq> []" for i :: nat
  proof (cases "i = 0")
    case True
    then have "(1::nat) \<in> set example_dataset \<and> 1 mod 5 \<noteq> i" by (simp add: example_dataset_def)
    then show ?thesis unfolding filter_empty_conv by blast
  next
    case False
    then have "(0::nat) \<in> set example_dataset \<and> 0 mod 5 \<noteq> i" by (simp add: example_dataset_def)
    then show ?thesis unfolding filter_empty_conv by blast
  qed
  moreover have "kfold example_env 5 example_dataset
      = map (\<lambda>i. (filter (\<lambda>x. x mod 5 \<noteq> i) example_dataset,
                   filter (\<lambda>x. x mod 5 = i) example_dataset)) [0..<5]"
    by (simp add: example_env_def)
  ultimately show ?thesis by (auto intro!: example_trainable)
qed

lemma example_kfold_ne: "kfold example_env 5 example_dataset \<noteq> []"
  by (simp add: example_env_def)

lemma example_template:
  "pipelines example_world (pipeline example_optuna) = Some example_pipeline"
  "classifier example_pipeline = PRef 0"
  "classifiers example_world 0 = Some example_classifier"
  "pipeline example_optuna < next_id example_world"
  "0 < next_id example_world"
  "XGBPipeline.modality example_pipeline = [''acc'', ''hr'']"
  "target_column example_pipeline = ''sleep''"
  by (simp_all add: example_world_def example_optuna_def XGBOptuna_init_def example_pipeline_def
      target_column_def)

lemma example_score: "score_function example_optuna q t v = Inr [(''mcc'', 1 / 2)]"
  by (simp add: example_optuna_def XGBOptuna_init_def example_scorer_def)

lemma example_objective_ok:
  "\<exists>w'. objective example_env example_optuna example_dataset example_trial example_running
          = (Inr (1 / 2), w')"
proof -
  have db: "db example_running (key (study example_trial))
              = Some [\<lparr>number = 0, params = [], state = RUNNING\<rparr>]"
    "trial_id example_trial < length [\<lparr>number = 0, params = [], state = RUNNING\<rparr>]"
    "params ([\<lparr>number = 0, params = [], state = RUNNING\<rparr>] ! trial_id example_trial) = []"
    by (simp_all add: example_running_def example_trial_def example_study_def)
  have tm: "pipelines example_running (pipeline example_optuna) = Some example_pipeline"
    "classifiers example_running 0 = Some example_classifier"
    using example_template(1,3) by (simp_all add: example_running_def)
  have tr: "\<forall>(train, test)\<in>set (kfold example_env 5 example_dataset).
      trainable example_env (XGBPipeline.modality example_pipeline) (target_column example_pipeline) train"
    using example_folds by (simp add: example_template)
  show ?thesis
    by (rule objective_ok[OF db tm(1) example_template(2) tm(2) tr example_score example_kfold_ne])
qed

lemma example_optimize_ok:
  assumes "pipeline self = 1" "score_function self = example_scorer"
  shows "\<exists>self' w'. optimize example_env self example_dataset kw example_world = (Inr self', w')"
proof -
  have tm: "pipelines example_world (pipeline self) = Some example_pipeline"
    "pipeline self < next_id example_world"
    using assms(1) by (simp_all add: example_world_def)
  have names: "\<forall>t\<in>set (study_log example_world (study_key example_env self)).
                 map fst (params t) = hp_names"
    by (simp add: study_log_def example_world_def)
  have tr: "\<forall>(train, test)\<in>set (kfold example_env 5 example_dataset).
      trainable example_env (XGBPipeline.modality example_pipeline) (target_column example_pipeline) train"
    using example_folds by (simp add: example_template)
  have whole: "trainable example_env (XGBPipeline.modality example_pipeline)
        (target_column example_pipeline) example_dataset"
    by (simp add: example_template example_trainable example_dataset_def)
  have sc: "score_function self q t v = Inr [(''mcc'', 1 / 2)]" for q t v
    by (simp add: assms(2) example_scorer_def)
  show ?thesis
    by (rule optimize_ok[OF tm(1) example_template(2,3) tm(2) example_template(5) names tr whole sc
          example_kfold_ne])
qed

section \<open>The value of a trial, the returned artifact and its classifier\<close>

text \<open>
  C6: whenever \<open>objective\<close> returns a value for a trial, the value is the arithmetic
  mean of the per-fold values of the metric \<open>mcc\<close> (the entry \<open>test_mcc\<close> of the
  cross-validation result): the parameters are sampled, the template is cloned, the clone
  is configured with them, and the cross-validation of that clone over the folds of the
  five-fold split yields one score per fold, whose \<open>mcc\<close> values are averaged.
\<close>

theorem objective_is_mean_of_folds:
  assumes "objective env self dataset trial w = (Inr v, w')"
  shows "\<exists>paras w1 temp_pipeline w2 w3 scores xs.
      paras_to_be_searched env trial w = (Inr paras, w1)
    \<and> clone (pipeline self) w1 = (Inr temp_pipeline, w2)
    \<and> set_params temp_pipeline paras w2 = (Inr temp_pipeline, w3)
    \<and> cv_folds env temp_pipeline (kfold env 5 dataset)
         [(''early_stopping_rounds'', PInt 10), (''pruning_callback'', PruningCallback ''test_mcc'')]
         (score_function self) w3 = (Inr scores, w')
    \<and> length scores = length (kfold env 5 dataset)
    \<and> xs = List.map_filter (\<lambda>s. map_of s ''mcc'') scores
    \<and> xs \<noteq> []
    \<and> v = sum_list xs / real (length xs)"
proof -
  let ?kw = "[(''early_stopping_rounds'', PInt 10), (''pruning_callback'', PruningCallback ''test_mcc'')]"
  from assms[unfolded objective_def] obtain paras w1 where
    p: "paras_to_be_searched env trial w = (Inr paras, w1)"
    and r1: "and_then (clone (pipeline self)) (\<lambda>cl.
     and_then (set_params cl paras) (\<lambda>temp_pipeline.
     and_then (cross_validate env temp_pipeline dataset 5 ?kw (score_function self)) (\<lambda>results.
     and_then (getitem results ''test_mcc'') np_mean))) w1 = (Inr v, w')"
    by (rule and_then_InrE)
  from r1 obtain cl w2 where c: "clone (pipeline self) w1 = (Inr cl, w2)"
    and r2: "and_then (set_params cl paras) (\<lambda>temp_pipeline.
     and_then (cross_validate env temp_pipeline dataset 5 ?kw (score_function self)) (\<lambda>results.
     and_then (getitem results ''test_mcc'') np_mean)) w2 = (Inr v, w')"
    by (rule and_then_InrE)
  from r2 obtain tp w3 where s: "set_params cl paras w2 = (Inr tp, w3)"
    and r3: "and_then (cross_validate env tp dataset 5 ?kw (score_function self)) (\<lambda>results.
     and_then (getitem results ''test_mcc'') np_mean) w3 = (Inr v, w')"
    by (rule and_then_InrE)
  from set_params_Inr[OF s] have tp: "tp = cl" .
  from r3 obtain results w4 where cv: "cross_validate env cl dataset 5 ?kw (score_function self) w3 = (Inr results, w4)"
    and r4: "and_then (getitem results ''test_mcc'') np_mean w4 = (Inr v, w')"
    unfolding tp by (rule and_then_InrE)
  from cv[unfolded cross_validate_def] obtain scores w4' where
    f: "cv_folds env cl (kfold env 5 dataset) ?kw (score_function self) w3 = (Inr scores, w4')"
    and "ret (cv_results scores) w4' = (Inr results, w4)"
    by (rule and_then_InrE)
  then have res: "results = cv_results scores" and w4: "w4' = w4" by (simp_all add: ret_def)
  from r4 obtain xs w5 where g: "getitem results ''test_mcc'' w4 = (Inr xs, w5)"
    and m: "np_mean xs w5 = (Inr v, w')"
    by (rule and_then_InrE)
  from getitem_Inr[OF g] np_mean_Inr[OF m] have
    xs: "map_of results ''test_mcc'' = Some xs" "xs \<noteq> []" "v = sum_list xs / real (length xs)"
    and w: "w' = w4" by simp_all
  from xs(1) res have "map_of (cv_results scores) (''test_'' @ ''mcc'') = Some xs" by simp
  from cv_results_test[OF this] have xs': "xs = List.map_filter (\<lambda>s. map_of s ''mcc'') scores" .
  from cv_folds_length[OF f] have len: "length scores = length (kfold env 5 dataset)" .
  from p c s f len xs' xs(2,3) show ?thesis unfolding tp w w4 by blast
qed

theorem objective_is_mean_of_folds_witness:
  "\<exists>w' scores. objective example_env example_optuna example_dataset example_trial example_running
        = (Inr (1 / 2), w')
     \<and> length scores = length (kfold example_env 5 example_dataset)
     \<and> List.map_filter (\<lambda>s. map_of s ''mcc'') scores \<noteq> []
     \<and> 1 / 2 = sum_list (List.map_filter (\<lambda>s. map_of s ''mcc'') scores)
                 / real (length (List.map_filter (\<lambda>s. map_of s ''mcc'') scores))"
proof -
  from example_objective_ok obtain w' where
    run: "objective example_env example_optuna example_dataset example_trial example_running
          = (Inr (1 / 2), w')" by blast
  from objective_is_mean_of_folds[OF run] run show ?thesis by blast
qed

text \<open>
  C5: when \<open>optimize\<close> returns, on a study whose recorded trials carry the eight
  hyperparameters, the artifact \<open>optimized_pipeline_\<close> is a pipeline object that did
  not exist before the call; the template is unchanged; the artifact has the template's
  modality and classification type and its hyperparameters are exactly the parameters of
  the best trial of the study; its classifier is the last object created, and it has been
  trained by one training on the features and the label column of the entire dataset that
  was passed in, with no split.
\<close>

theorem best_model_is_refit_clone:
  assumes run: "optimize env self dataset optimize_params w = (Inr self', w')"
    and names: "\<forall>t\<in>set (study_log w (study_key env self)). map fst (params t) = hp_names"
    and alloc: "pipeline self < next_id w"
  shows "\<exists>opt pl tmpl bt cf clf X ground_truth y bst.
      optimized_pipeline self' = Some opt \<and> next_id w \<le> opt \<and> pipelines w' opt = Some pl
    \<and> pipelines w (pipeline self) = Some tmpl \<and> pipelines w' (pipeline self) = Some tmpl
    \<and> best_trial Maximize (study_log w' (study_key env self)) = Inr bt
    \<and> hyperparameters pl = params bt
    \<and> XGBPipeline.modality pl = XGBPipeline.modality tmpl
    \<and> XGBPipeline.classification_type pl = XGBPipeline.classification_type tmpl
    \<and> classifier pl = PRef cf \<and> next_id w \<le> cf \<and> next_id w' = Suc cf
    \<and> classifiers w' cf = Some clf
    \<and> get_concat_dataset env dataset (XGBPipeline.modality tmpl) = (X, ground_truth)
    \<and> map_of ground_truth (if XGBPipeline.classification_type tmpl = ''binary'' then ''sleep''
                            else XGBPipeline.classification_type tmpl) = Some y
    \<and> xgb_fit env (xgb_params clf) X y = Inr bst \<and> booster clf = Some bst"
proof -
  from run names obtain bt tmpl opt pl cf clf X gt y bst c w2 where
    F: "best_trial Maximize (study_log w' (study_key env self)) = Inr bt"
    "frame {} {} w w2" "pipelines w2 (pipeline self) = Some tmpl"
    "optimized_pipeline self' = Some opt"
    "next_id w \<le> opt" "pipelines w' opt = Some pl"
    "hyperparameters pl = params bt"
    "XGBPipeline.modality pl = XGBPipeline.modality tmpl"
    "XGBPipeline.classification_type pl = XGBPipeline.classification_type tmpl"
    "classifier pl = PRef cf" "next_id w \<le> cf" "classifiers w' cf = Some clf"
    "xgb_params clf = (if classification_type self = ''binary''
                       then (''objective'', PStr ''binary:logistic'') # params bt else params bt)"
    "booster clf = Some bst"
    "get_concat_dataset env dataset (XGBPipeline.modality tmpl) = (X, gt)"
    "map_of gt (target_column tmpl) = Some y"
    "xgb_fit env (xgb_params clf) X y = Inr bst"
    "next_id w \<le> c"
    "classifiers w' c =
       Some \<lparr>xgb_params = (if classification_type self = ''binary''
                       then (''objective'', PStr ''binary:logistic'') # params bt else params bt),
             booster = None\<rparr>"
    "next_id w' = Suc cf"
    by (rule optimize_Inr)
  from F(2,3) alloc have t0: "pipelines w (pipeline self) = Some tmpl" by (simp add: frame_def)
  from optimize_trace[OF run] alloc t0 have t1: "pipelines w' (pipeline self) = Some tmpl"
    by (simp add: frame_def)
  have col: "map_of gt (if XGBPipeline.classification_type tmpl = ''binary'' then ''sleep''
                            else XGBPipeline.classification_type tmpl) = Some y"
    using F(16) by (simp add: target_column_def)
  from F(4,5,6) t0 t1 F(1,7,8,9,10,11,20,12,15) col F(17,14) show ?thesis by blast
qed

theorem best_model_is_refit_clone_witness:
  "\<exists>self' w' opt. optimize example_env example_optuna example_dataset [] example_world = (Inr self', w')
     \<and> pipeline example_optuna < next_id example_world
     \<and> optimized_pipeline self' = Some opt \<and> next_id example_world \<le> opt
     \<and> pipelines w' (pipeline example_optuna) = Some example_pipeline"
proof -
  have f: "pipeline example_optuna = 1" "score_function example_optuna = example_scorer"
    by (simp_all add: example_optuna_def XGBOptuna_init_def)
  from example_optimize_ok[OF f, of "[]"] obtain self' w' where
    run: "optimize example_env example_optuna example_dataset [] example_world = (Inr self', w')"
    by blast
  have names: "\<forall>t\<in>set (study_log example_world (study_key example_env example_optuna)).
                 map fst (params t) = hp_names"
    by (simp add: study_log_def example_world_def)
  from best_model_is_refit_clone[OF run names example_template(4)] example_template(1)
  obtain opt where "optimized_pipeline self' = Some opt" "next_id example_world \<le> opt"
    "pipelines w' (pipeline example_optuna) = Some example_pipeline"
    by auto
  with run example_template(4) show ?thesis by blast
qed







end
